theory Spec2Isabelle
  imports Main
begin

section \<open>Values and exceptions of the host language\<close>

text \<open>
  Python values that travel through the engine (tool arguments, tool results, decoded
  JSON, raw provider payloads). \<open>PNone\<close> is Python's \<open>None\<close>; a \<open>dict\<close> is an
  association list because the engine only tests whether a value is a dict and passes
  it on.
\<close>

datatype pyval =
    PNone
  | PBool bool
  | PInt int
  | PStr string
  | PList "pyval list"
  | PDict "(string \<times> pyval) list"

text \<open>
  A raised exception (an instance of Python's \<open>Exception\<close>): the name of its class, the
  names of the classes that class derives from, and the text \<open>str(e)\<close> returns. A
  fallible operation returns \<open>py_exception + 'a\<close>, with \<open>Inl e\<close> for \<open>raise e\<close>.
  Interpreter-level signals that are not instances of \<open>Exception\<close> (keyboard interrupt,
  interpreter exit) and callables that never return are outside the model: every
  callable handed to the engine is a total function.
\<close>

datatype py_exception = PyExc (exc_class: string) (exc_bases: "string list") (exc_str: string)

text \<open>\<open>isinstance(e, cls)\<close>.\<close>

definition isinstance :: "py_exception \<Rightarrow> string \<Rightarrow> bool" where
  "isinstance e cls \<longleftrightarrow> exc_class e = cls \<or> cls \<in> set (exc_bases e)"

abbreviation ValueError :: "string \<Rightarrow> py_exception" where
  "ValueError msg \<equiv> PyExc ''ValueError'' [''Exception''] msg"

abbreviation TypeError :: "string \<Rightarrow> py_exception" where
  "TypeError msg \<equiv> PyExc ''TypeError'' [''Exception''] msg"

abbreviation IndexError :: "string \<Rightarrow> py_exception" where
  "IndexError msg \<equiv> PyExc ''IndexError'' [''LookupError'', ''Exception''] msg"

abbreviation KeyError :: "string \<Rightarrow> py_exception" where
  "KeyError msg \<equiv> PyExc ''KeyError'' [''LookupError'', ''Exception''] msg"

abbreviation AttributeError :: "string \<Rightarrow> py_exception" where
  "AttributeError msg \<equiv> PyExc ''AttributeError'' [''Exception''] msg"

abbreviation RuntimeError :: "string \<Rightarrow> py_exception" where
  "RuntimeError msg \<equiv> PyExc ''RuntimeError'' [''Exception''] msg"

abbreviation AssertionError :: "py_exception" where
  "AssertionError \<equiv> PyExc ''AssertionError'' [''Exception''] []"

abbreviation StopIteration :: "py_exception" where
  "StopIteration \<equiv> PyExc ''StopIteration'' [''Exception''] []"

abbreviation JSONDecodeError :: "string \<Rightarrow> py_exception" where
  "JSONDecodeError msg \<equiv> PyExc ''JSONDecodeError'' [''ValueError'', ''Exception''] msg"

text \<open>
  An exception that leaves the body of a generator: a \<open>StopIteration\<close> is replaced by a
  \<open>RuntimeError\<close> (PEP 479), any other exception passes as it is.
\<close>

definition generator_raise :: "py_exception \<Rightarrow> py_exception" where
  "generator_raise e =
     (if isinstance e ''StopIteration'' then RuntimeError ''generator raised StopIteration''
      else e)"

text \<open>\<open>str(n)\<close> for a non-negative integer, as an f-string renders an index or a length.\<close>

fun str_nat :: "nat \<Rightarrow> string" where
  "str_nat n =
     (if n < 10 then [char_of (48 + n)]
      else str_nat (n div 10) @ [char_of (48 + n mod 10)])"

declare str_nat.simps [simp del]

section \<open>Content and Turn\<close>

text \<open>
  Modelled from the spec: the classes \<open>Content*\<close> (\<open>_content.py\<close>) and \<open>Turn\<close>
  (\<open>_turn.py\<close>) are imported by \<open>_chat.py\<close> but are not among the sources. The
  variants and fields are those of the spec's data model (section 3) under the names
  the engine uses for them.
\<close>

datatype content =
    ContentText string
  | ContentJson pyval
  | ContentImageRemote string
  | ContentImageInline string string
  | ContentToolRequest string string pyval
  | ContentToolResult string pyval "string option"

datatype role = System | User | Assistant

record turn =
  role :: role
  contents :: "content list"
  tokens :: "(int \<times> int) option"
  finish_reason :: "string option"
  raw_json :: "pyval option"

text \<open>
  Modelled from the spec: the constructor call \<open>Turn(role, contents)\<close> with a list of
  contents; the optional fields are unset.
\<close>

definition Turn :: "role \<Rightarrow> content list \<Rightarrow> turn" where
  "Turn r cs = \<lparr>role = r, contents = cs, tokens = None, finish_reason = None, raw_json = None\<rparr>"

text \<open>
  Modelled from the spec: the constructor call \<open>Turn(role, value)\<close> with a string; a
  string input becomes a single Text content (spec 4.2, state Start).
\<close>

definition Turn_str :: "role \<Rightarrow> string \<Rightarrow> turn" where
  "Turn_str r s = Turn r [ContentText s]"

text \<open>
  Modelled from the spec: the attribute \<open>Turn.text\<close>, the text a turn carries: the
  strings of its Text contents, in order, joined.
\<close>

fun content_text :: "content \<Rightarrow> string" where
  "content_text (ContentText s) = s"
| "content_text _ = []"

definition turn_text :: "turn \<Rightarrow> string" where
  "turn_text t = concat (map content_text (contents t))"

section \<open>Tools and the chat object\<close>

text \<open>
  A tool function is called either with keyword arguments (\<open>func(**arguments)\<close>) or
  with one positional argument (\<open>func(arguments)\<close>); it returns a value or raises.
  \<open>dunder_name\<close> is its attribute \<open>__name__\<close>, which a callable need not have (a
  \<open>functools.partial\<close> object has none). Of \<open>Tool\<close> the engine reads \<open>func\<close> and
  \<open>_is_async\<close>.
\<close>

datatype call_args = Kwargs "(string \<times> pyval) list" | Positional pyval

record py_callable =
  call :: "call_args \<Rightarrow> py_exception + pyval"
  dunder_name :: "string option"

record tool =
  func :: py_callable
  is_async :: bool

text \<open>
  The state of a \<open>Chat\<close>: the provider object's own state, \<open>_turns\<close> and the
  \<open>_tools\<close> dict (looked up by name with \<open>map_of\<close>).
\<close>

record 's chat =
  provider_state :: 's
  turns :: "turn list"
  tools :: "(string \<times> tool) list"

section \<open>Reading and replacing the history\<close>

definition get_turns :: "'s chat \<Rightarrow> bool \<Rightarrow> turn list" where
  "get_turns c include_system_prompt =
     (case turns c of
        [] \<Rightarrow> []
      | t # ts \<Rightarrow> if \<not> include_system_prompt \<and> role t = System then ts else t # ts)"

definition get_last_turn :: "'s chat \<Rightarrow> role \<Rightarrow> turn option" where
  "get_last_turn c r = find (\<lambda>t. role t = r) (rev (turns c))"

text \<open>\<open>next(i for i, x in enumerate(turns) if x.role == "system")\<close>, counting from \<open>i\<close>.\<close>

fun first_system :: "turn list \<Rightarrow> nat \<Rightarrow> nat option" where
  "first_system [] i = None"
| "first_system (x # xs) i = (if role x = System then Some i else first_system xs (Suc i))"

definition set_turns_msg_tail :: string where
  "set_turns_msg_tail =
     '' has a role 'system', which is not allowed. '' @
     ''The system prompt must be set separately using the `.system_prompt` property. '' @
     ''Consider removing this turn and setting the `.system_prompt` separately '' @
     ''if you want to change the system prompt.''"

definition set_turns_msg :: "nat \<Rightarrow> string" where
  "set_turns_msg idx = ''Turn '' @ str_nat idx @ set_turns_msg_tail"

definition set_turns :: "'s chat \<Rightarrow> turn list \<Rightarrow> (py_exception + unit) \<times> 's chat" where
  "set_turns c ts =
     (if list_ex (\<lambda>x. role x = System) ts then
        (case first_system ts 0 of
           Some idx \<Rightarrow> (Inl (ValueError (set_turns_msg idx)), c)
         | None \<Rightarrow> (Inl StopIteration, c))
      else (Inr (), c\<lparr>turns := ts\<rparr>))"

definition system_prompt :: "'s chat \<Rightarrow> string option" where
  "system_prompt c =
     (case turns c of
        [] \<Rightarrow> None
      | t # ts \<Rightarrow> if role t = System then Some (turn_text t) else None)"

text \<open>The setter: \<open>pop(0)\<close> a leading system turn, then \<open>insert(0, Turn("system", value))\<close>.\<close>

definition set_system_prompt :: "'s chat \<Rightarrow> string option \<Rightarrow> 's chat" where
  "set_system_prompt c v =
     (let ts1 = (case turns c of
                   [] \<Rightarrow> []
                 | t # ts \<Rightarrow> if role t = System then ts else t # ts);
          ts2 = (case v of None \<Rightarrow> ts1 | Some s \<Rightarrow> Turn_str System s # ts1)
      in c\<lparr>turns := ts2\<rparr>)"

text \<open>
  The invariant of the spec's data model: a turn with role \<open>system\<close> can only be the
  first one (so there is at most one).
\<close>

definition system_only_first :: "turn list \<Rightarrow> bool" where
  "system_only_first ts \<longleftrightarrow> (\<forall>i<length ts. role (ts ! i) = System \<longrightarrow> i = 0)"

text \<open>
  The round trip of the spec's section 8: read the full history and the system prompt,
  \<open>set_turns\<close> the history without its leading system turn, assign the system prompt
  again.
\<close>

definition history_roundtrip :: "'s chat \<Rightarrow> (py_exception + unit) \<times> 's chat" where
  "history_roundtrip c =
     (let full = get_turns c True;
          sp = system_prompt c;
          suffix = (case full of
                      [] \<Rightarrow> []
                    | t # ts \<Rightarrow> if role t = System then ts else t # ts)
      in case set_turns c suffix of
           (Inl e, c1) \<Rightarrow> (Inl e, c1)
         | (Inr u, c1) \<Rightarrow> (Inr (), set_system_prompt c1 sp))"

section \<open>The provider contract\<close>

text \<open>
  The abstract class \<open>Provider\<close>, as a record of its methods over the provider
  object's state \<open>'s\<close>. The two overloads of \<open>chat_perform\<close> are two fields: with
  \<open>stream=False\<close> it returns a completion, with \<open>stream=True\<close> an iterable, modelled
  by the chunks it delivers and the exception, if any, that iterating it raises after
  them. Each call receives \<open>[*self._turns, user_turn]\<close>, the tools and the data model
  (its schema, as a value); the pass-through \<open>kwargs\<close> are left out. A method that can
  raise returns a sum.
\<close>

record ('s, 'compl, 'chunk, 'acc) provider =
  chat_perform_value ::
    "'s \<Rightarrow> turn list \<Rightarrow> (string \<times> tool) list \<Rightarrow> pyval option \<Rightarrow> (py_exception + 'compl) \<times> 's"
  chat_perform_stream ::
    "'s \<Rightarrow> turn list \<Rightarrow> (string \<times> tool) list \<Rightarrow> pyval option \<Rightarrow>
       (py_exception + 'chunk list \<times> py_exception option) \<times> 's"
  stream_text :: "'chunk \<Rightarrow> string option"
  stream_merge_chunks :: "'acc option \<Rightarrow> 'chunk \<Rightarrow> py_exception + 'acc"
  stream_turn :: "'acc option \<Rightarrow> bool \<Rightarrow> py_exception + turn"
  value_turn :: "'compl \<Rightarrow> bool \<Rightarrow> py_exception + turn"

section \<open>One submission round\<close>

datatype echo = EchoText | EchoAll | EchoNone

text \<open>
  The loop \<open>for chunk in response\<close> of \<open>_submit_turns\<close> over the delivered chunks:
  a non-empty text is yielded, then the chunk is merged into \<open>result\<close>.
\<close>

fun consume_stream ::
  "('s, 'compl, 'chunk, 'acc) provider \<Rightarrow> 'chunk list \<Rightarrow> 'acc option \<Rightarrow> string list \<Rightarrow>
     (py_exception + 'acc option) \<times> string list" where
  "consume_stream P [] result ys = (Inr result, ys)"
| "consume_stream P (chunk # chunks) result ys =
     (let ys' = (case stream_text P chunk of
                   None \<Rightarrow> ys
                 | Some text \<Rightarrow> if text \<noteq> [] then ys @ [text] else ys)
      in case stream_merge_chunks P result chunk of
           Inl e \<Rightarrow> (Inl e, ys')
         | Inr r \<Rightarrow> consume_stream P chunks (Some r) ys')"

text \<open>
  How the \<open>for\<close> loop over the stream ends after the delivered chunks: a
  \<open>StopIteration\<close> raised by the iterator is the ordinary end of the iteration, any
  other exception leaves the loop.
\<close>

definition stream_stop :: "py_exception option \<Rightarrow> py_exception option" where
  "stream_stop stop =
     (case stop of
        None \<Rightarrow> None
      | Some e \<Rightarrow> if isinstance e ''StopIteration'' then None else Some e)"

text \<open>
  \<open>Chat._submit_turns\<close>, consumed to its end. The result is the outcome, the chat
  afterwards (also when an exception leaves the generator) and the strings yielded.
  \<open>_submit_turns\<close> is a generator, so an exception raised by a call in its body leaves
  it through \<open>generator_raise\<close>. The display is a write-only sink and is not modelled;
  of \<open>emit_user_contents\<close> the check of the role remains.
\<close>

definition submit_turns ::
  "('s, 'compl, 'chunk, 'acc) provider \<Rightarrow> 's chat \<Rightarrow> turn \<Rightarrow> echo \<Rightarrow> bool \<Rightarrow> pyval option \<Rightarrow>
     (py_exception + unit) \<times> 's chat \<times> string list" where
  "submit_turns P c user_turn ech stream data_model =
     (if list_ex (\<lambda>x. is_async (snd x)) (tools c) then
        (Inl (ValueError ''Cannot use async tools in a synchronous chat''), c, [])
      else if ech = EchoAll \<and> role user_turn \<noteq> User then
        (Inl (ValueError ''Expected a user turn''), c, [])
      else if stream then
        (case chat_perform_stream P (provider_state c) (turns c @ [user_turn]) (tools c)
                data_model of
           (Inl e, s') \<Rightarrow> (Inl (generator_raise e), c\<lparr>provider_state := s'\<rparr>, [])
         | (Inr (chunks, stop), s') \<Rightarrow>
             (case consume_stream P chunks None [] of
                (Inl e, ys) \<Rightarrow> (Inl (generator_raise e), c\<lparr>provider_state := s'\<rparr>, ys)
              | (Inr result, ys) \<Rightarrow>
                  (case stream_stop stop of
                     Some e \<Rightarrow> (Inl e, c\<lparr>provider_state := s'\<rparr>, ys)
                   | None \<Rightarrow>
                       (case stream_turn P result (data_model \<noteq> None) of
                          Inl e \<Rightarrow> (Inl (generator_raise e), c\<lparr>provider_state := s'\<rparr>, ys)
                        | Inr turn \<Rightarrow>
                            (Inr (),
                             c\<lparr>provider_state := s', turns := turns c @ [user_turn, turn]\<rparr>,
                             ys)))))
      else
        (case chat_perform_value P (provider_state c) (turns c @ [user_turn]) (tools c)
                data_model of
           (Inl e, s') \<Rightarrow> (Inl (generator_raise e), c\<lparr>provider_state := s'\<rparr>, [])
         | (Inr response, s') \<Rightarrow>
             (case value_turn P response (data_model \<noteq> None) of
                Inl e \<Rightarrow> (Inl (generator_raise e), c\<lparr>provider_state := s'\<rparr>, [])
              | Inr turn \<Rightarrow>
                  (Inr (),
                   c\<lparr>provider_state := s', turns := turns c @ [user_turn, turn]\<rparr>,
                   if turn_text turn \<noteq> [] then [turn_text turn] else []))))"

section \<open>Tool invocation\<close>

text \<open>
  The call inside \<open>_invoke_tool\<close>: \<open>func(**arguments)\<close> when the arguments are a
  dict, \<open>func(arguments)\<close> otherwise.
\<close>

definition call_func :: "py_callable \<Rightarrow> pyval \<Rightarrow> py_exception + pyval" where
  "call_func fn arguments =
     (case arguments of
        PDict kvs \<Rightarrow> call fn (Kwargs kvs)
      | _ \<Rightarrow> call fn (Positional arguments))"

text \<open>
  \<open>Chat._invoke_tool\<close>. In the \<open>except\<close> branch the arguments of \<open>log_tool_error\<close> are
  evaluated first, among them \<open>func.__name__\<close>: for a callable without that attribute
  the branch raises \<open>AttributeError\<close> and no result is built. \<open>log_tool_error\<close> itself
  only writes to the log.
\<close>

definition invoke_tool :: "py_callable option \<Rightarrow> pyval \<Rightarrow> string \<Rightarrow> py_exception + content" where
  "invoke_tool f arguments tool_id =
     (case f of
        None \<Rightarrow> Inr (ContentToolResult tool_id PNone (Some ''Unknown tool''))
      | Some fn \<Rightarrow>
          (case call_func fn arguments of
             Inr result \<Rightarrow> Inr (ContentToolResult tool_id result None)
           | Inl e \<Rightarrow>
               (case dunder_name fn of
                  None \<Rightarrow> Inl (AttributeError ''__name__'')
                | Some name \<Rightarrow> Inr (ContentToolResult tool_id PNone (Some (exc_str e))))))"

text \<open>
  The loop of \<open>_invoke_tools\<close> over the contents of the turn; an exception of
  \<open>_invoke_tool\<close> ends it.
\<close>

fun tool_results :: "(string \<times> tool) list \<Rightarrow> content list \<Rightarrow> py_exception + content list" where
  "tool_results tls [] = Inr []"
| "tool_results tls (ContentToolRequest i n a # xs) =
     (case invoke_tool (map_option func (map_of tls n)) a i of
        Inl e \<Rightarrow> Inl e
      | Inr r \<Rightarrow>
          (case tool_results tls xs of
             Inl e \<Rightarrow> Inl e
           | Inr rs \<Rightarrow> Inr (r # rs)))"
| "tool_results tls (x # xs) = tool_results tls xs"

definition invoke_tools :: "'s chat \<Rightarrow> py_exception + turn option" where
  "invoke_tools c =
     (case get_last_turn c Assistant of
        None \<Rightarrow> Inr None
      | Some turn \<Rightarrow>
          (case tool_results (tools c) (contents turn) of
             Inl e \<Rightarrow> Inl e
           | Inr results \<Rightarrow> if results = [] then Inr None else Inr (Some (Turn User results))))"

text \<open>The tool requests of a turn, in the order of its contents.\<close>

fun is_tool_request :: "content \<Rightarrow> bool" where
  "is_tool_request (ContentToolRequest i n a) = True"
| "is_tool_request _ = False"

definition tool_requests_of :: "turn \<Rightarrow> content list" where
  "tool_requests_of t = filter is_tool_request (contents t)"

text \<open>
  The tool result the specification describes for one tool request: \<open>Unknown tool\<close> for a name
  that is not registered, the returned value, or the text of the exception raised.
\<close>

fun answer_request :: "(string \<times> tool) list \<Rightarrow> content \<Rightarrow> content" where
  "answer_request tls (ContentToolRequest i n a) =
     (case map_of tls n of
        None \<Rightarrow> ContentToolResult i PNone (Some ''Unknown tool'')
      | Some t \<Rightarrow>
          (case call_func (func t) a of
             Inr v \<Rightarrow> ContentToolResult i v None
           | Inl e \<Rightarrow> ContentToolResult i PNone (Some (exc_str e))))"
| "answer_request tls x = x"

text \<open>Every registered tool function has a \<open>__name__\<close>.\<close>

definition tools_named :: "(string \<times> tool) list \<Rightarrow> bool" where
  "tools_named tls \<longleftrightarrow> list_all (\<lambda>x. dunder_name (func (snd x)) \<noteq> None) tls"

section \<open>The submission loop\<close>

text \<open>
  \<open>Chat._chat_impl\<close>: the \<open>while\<close> loop runs as long as \<open>_invoke_tools\<close> returns a
  turn, so it is given fuel, the number of iterations it may start; \<open>None\<close> means the
  loop has not ended within them. An exception ends the loop with what was yielded
  before it; \<open>_chat_impl\<close> is a generator too.
\<close>

fun chat_impl ::
  "nat \<Rightarrow> ('s, 'compl, 'chunk, 'acc) provider \<Rightarrow> 's chat \<Rightarrow> turn \<Rightarrow> echo \<Rightarrow> bool \<Rightarrow>
     ((py_exception + unit) \<times> 's chat \<times> string list) option" where
  "chat_impl 0 P c user_turn ech stream = None"
| "chat_impl (Suc n) P c user_turn ech stream =
     (case submit_turns P c user_turn ech stream None of
        (Inl e, c', ys) \<Rightarrow> Some (Inl (generator_raise e), c', ys)
      | (Inr u, c', ys) \<Rightarrow>
          (case invoke_tools c' of
             Inl e \<Rightarrow> Some (Inl (generator_raise e), c', ys)
           | Inr None \<Rightarrow> Some (Inr (), c', ys)
           | Inr (Some user_turn_result) \<Rightarrow>
               (case chat_impl n P c' user_turn_result ech stream of
                  None \<Rightarrow> None
                | Some (r, c'', ys') \<Rightarrow> Some (r, c'', ys @ ys'))))"

text \<open>
  The start of round \<open>k\<close> of the loop (rounds are counted from 0): the chat and the user
  turn with which \<open>_submit_turns\<close> is called for the \<open>k\<close>-th time after \<open>k\<close> completed
  rounds that each ended with tool results, and what was yielded before.
\<close>

fun rounds_before ::
  "nat \<Rightarrow> ('s, 'compl, 'chunk, 'acc) provider \<Rightarrow> 's chat \<Rightarrow> turn \<Rightarrow> echo \<Rightarrow> bool \<Rightarrow>
     ('s chat \<times> turn \<times> string list) option" where
  "rounds_before 0 P c user_turn ech stream = Some (c, user_turn, [])"
| "rounds_before (Suc k) P c user_turn ech stream =
     (case submit_turns P c user_turn ech stream None of
        (Inl e, c', ys) \<Rightarrow> None
      | (Inr u, c', ys) \<Rightarrow>
          (case invoke_tools c' of
             Inr (Some user_turn_result) \<Rightarrow>
               (case rounds_before k P c' user_turn_result ech stream of
                  None \<Rightarrow> None
                | Some (ck, uk, ys') \<Rightarrow> Some (ck, uk, ys @ ys'))
           | _ \<Rightarrow> None))"

text \<open>
  The turn one request of the provider produces when the request, the consumption of
  its stream and the conversion to a turn all complete, with the provider's state
  afterwards.
\<close>

definition provider_reply ::
  "('s, 'compl, 'chunk, 'acc) provider \<Rightarrow> bool \<Rightarrow> 's \<Rightarrow> turn list \<Rightarrow> (string \<times> tool) list \<Rightarrow>
     pyval option \<Rightarrow> (turn \<times> 's) option" where
  "provider_reply P stream s ts tls data_model =
     (if stream then
        (case chat_perform_stream P s ts tls data_model of
           (Inr (chunks, stop), s') \<Rightarrow>
             (case consume_stream P chunks None [] of
                (Inr result, ys) \<Rightarrow>
                  (case stream_stop stop of
                     None \<Rightarrow>
                       (case stream_turn P result (data_model \<noteq> None) of
                          Inr turn \<Rightarrow> Some (turn, s')
                        | Inl e \<Rightarrow> None)
                   | Some e \<Rightarrow> None)
              | (Inl e, ys) \<Rightarrow> None)
         | (Inl e, s') \<Rightarrow> None)
      else
        (case chat_perform_value P s ts tls data_model of
           (Inr response, s') \<Rightarrow>
             (case value_turn P response (data_model \<noteq> None) of
                Inr turn \<Rightarrow> Some (turn, s')
              | Inl e \<Rightarrow> None)
         | (Inl e, s') \<Rightarrow> None))"

text \<open>
  A stub provider that asks for tools on its first \<open>N\<close> requests and never afterwards:
  \<open>served\<close> counts the requests a provider state has answered; every request is
  answered with an assistant turn, which holds a tool request exactly while fewer than
  \<open>N\<close> requests were answered before it.
\<close>

definition tool_rounds_stub ::
  "('s, 'compl, 'chunk, 'acc) provider \<Rightarrow> bool \<Rightarrow> ('s \<Rightarrow> nat) \<Rightarrow> nat \<Rightarrow> bool" where
  "tool_rounds_stub P stream served N \<longleftrightarrow>
     (\<forall>s ts tls dm. \<exists>A s'.
        provider_reply P stream s ts tls dm = Some (A, s') \<and>
        served s' = Suc (served s) \<and>
        role A = Assistant \<and>
        (tool_requests_of A \<noteq> [] \<longleftrightarrow> served s < N))"

section \<open>Structured data extraction\<close>

definition extract_data_msg :: "nat \<Rightarrow> string" where
  "extract_data_msg n = ''Data extraction failed: '' @ str_nat n @ '' data results received.''"

fun json_values :: "content list \<Rightarrow> pyval list" where
  "json_values [] = []"
| "json_values (ContentJson v # xs) = v # json_values xs"
| "json_values (x # xs) = json_values xs"

text \<open>
  \<open>Chat.extract_data\<close>, given the user turn that \<open>user_turn(*args)\<close> builds and the
  schema of the data model.
\<close>

definition extract_data ::
  "('s, 'compl, 'chunk, 'acc) provider \<Rightarrow> 's chat \<Rightarrow> turn \<Rightarrow> pyval \<Rightarrow> echo \<Rightarrow> bool \<Rightarrow>
     (py_exception + pyval) \<times> 's chat" where
  "extract_data P c user_turn data_model ech stream =
     (case submit_turns P c user_turn ech stream (Some data_model) of
        (Inl e, c', ys) \<Rightarrow> (Inl e, c')
      | (Inr u, c', ys) \<Rightarrow>
          (case get_last_turn c' Assistant of
             None \<Rightarrow> (Inl AssertionError, c')
           | Some turn \<Rightarrow>
               (let res = json_values (contents turn)
                in if length res \<noteq> 1 then (Inl (ValueError (extract_data_msg (length res))), c')
                   else (Inr (res ! 0), c'))))"

section \<open>The OpenAI provider\<close>

text \<open>
  The objects of the \<open>openai\<close> package that \<open>OpenAIProvider\<close> reads, with the
  attributes it reads and the \<open>object\<close> field that tells a completion from a chunk.
  \<open>chat_completion\<close> is both a \<open>ChatCompletion\<close> and its dict form
  (\<open>ChatCompletionDict\<close>), in which a choice holds a \<open>message\<close> or a \<open>delta\<close>; \<open>x_groq\<close>
  is set when the object has that attribute, to the token counts it holds. The other
  fields of the payload are left out.
\<close>

record function_call =
  fn_name :: string
  fn_arguments :: string

record tool_call =
  call_id :: string
  call_function :: "function_call option"

record chat_message =
  msg_content :: "string option"
  msg_tool_calls :: "tool_call list option"

record choice =
  message :: "chat_message option"
  delta :: "chat_message option"
  choice_finish_reason :: "string option"

record usage =
  prompt_tokens :: int
  completion_tokens :: int

record chat_completion =
  completion_object :: string
  choices :: "choice list"
  usage :: "usage option"
  x_groq :: "usage option"

record chunk_choice =
  chunk_delta :: chat_message
  chunk_finish_reason :: "string option"

record chat_completion_chunk =
  chunk_choices :: "chunk_choice list"
  chunk_usage :: "usage option"
  chunk_x_groq :: "usage option"

text \<open>
  \<open>chunk.model_dump()\<close>: the dict of the chunk's fields; the \<open>object\<close> of a
  \<open>ChatCompletionChunk\<close> is \<open>chat.completion.chunk\<close>.
\<close>

definition chunk_model_dump :: "chat_completion_chunk \<Rightarrow> chat_completion" where
  "chunk_model_dump chunk =
     \<lparr>completion_object = ''chat.completion.chunk'',
      choices = map (\<lambda>ch. \<lparr>message = None, delta = Some (chunk_delta ch),
                            choice_finish_reason = chunk_finish_reason ch\<rparr>)
                    (chunk_choices chunk),
      usage = chunk_usage chunk,
      x_groq = chunk_x_groq chunk\<rparr>"

text \<open>
  What \<open>OpenAIProvider\<close> calls outside the sources: the remote client
  (\<open>chat.completions.create\<close>, after \<open>_chat_perform_args\<close> has built the request from
  the turns, the tools and the data model), \<open>json.loads\<close> (\<open>Inl msg\<close> is a
  \<open>JSONDecodeError\<close>), \<open>merge_dicts\<close> of \<open>_merge.py\<close> and the \<open>model_dump\<close> of a
  completion.
\<close>

record 's openai_env =
  create_value ::
    "'s \<Rightarrow> turn list \<Rightarrow> (string \<times> tool) list \<Rightarrow> pyval option \<Rightarrow>
       (py_exception + chat_completion) \<times> 's"
  create_stream ::
    "'s \<Rightarrow> turn list \<Rightarrow> (string \<times> tool) list \<Rightarrow> pyval option \<Rightarrow>
       (py_exception + chat_completion_chunk list \<times> py_exception option) \<times> 's"
  json_loads :: "string \<Rightarrow> string + pyval"
  merge_dicts :: "chat_completion \<Rightarrow> chat_completion \<Rightarrow> py_exception + chat_completion"
  model_dump :: "chat_completion \<Rightarrow> pyval"

text \<open>The loop over \<open>message.tool_calls\<close> in \<open>_as_turn\<close>.\<close>

fun as_turn_tool_calls :: "(string \<Rightarrow> string + pyval) \<Rightarrow> tool_call list \<Rightarrow> content list" where
  "as_turn_tool_calls loads [] = []"
| "as_turn_tool_calls loads (tc # tool_calls) =
     (case call_function tc of
        None \<Rightarrow> as_turn_tool_calls loads tool_calls
      | Some f \<Rightarrow>
          (let args = (if fn_arguments f \<noteq> [] then
                         (case loads (fn_arguments f) of
                            Inr v \<Rightarrow> v
                          | Inl msg \<Rightarrow> PDict [])
                       else PDict [])
           in ContentToolRequest (call_id tc) (fn_name f) args #
              as_turn_tool_calls loads tool_calls))"

text \<open>\<open>OpenAIProvider._as_turn\<close>; \<open>tokens_log\<close> only records the counts.\<close>

definition as_turn :: "'s openai_env \<Rightarrow> chat_completion \<Rightarrow> bool \<Rightarrow> py_exception + turn" where
  "as_turn env completion has_data_model =
     (case choices completion of
        [] \<Rightarrow> Inl (IndexError ''list index out of range'')
      | ch # rest \<Rightarrow>
          (case message ch of
             None \<Rightarrow> Inl (AttributeError ''message'')
           | Some msg \<Rightarrow>
               (case (case msg_content msg of
                        None \<Rightarrow> Inr []
                      | Some text \<Rightarrow>
                          if has_data_model then
                            (case json_loads env text of
                               Inl m \<Rightarrow> Inl (JSONDecodeError m)
                             | Inr data \<Rightarrow> Inr [ContentJson data])
                          else Inr [ContentText text]) of
                  Inl e \<Rightarrow> Inl e
                | Inr contents0 \<Rightarrow>
                    (let contents1 =
                           contents0 @
                           (case msg_tool_calls msg of
                              None \<Rightarrow> []
                            | Some calls \<Rightarrow> as_turn_tool_calls (json_loads env) calls);
                         tokens0 =
                           (case usage completion of
                              None \<Rightarrow> (0, 0)
                            | Some u \<Rightarrow> (prompt_tokens u, completion_tokens u));
                         tokens1 =
                           (case (usage completion, x_groq completion) of
                              (None, Some g) \<Rightarrow> (prompt_tokens g, completion_tokens g)
                            | _ \<Rightarrow> tokens0)
                     in Inr \<lparr>role = Assistant, contents = contents1, tokens = Some tokens1,
                             finish_reason = choice_finish_reason ch,
                             raw_json = Some (model_dump env completion)\<rparr>))))"

definition openai_stream_text :: "chat_completion_chunk \<Rightarrow> string option" where
  "openai_stream_text chunk =
     (case chunk_choices chunk of
        [] \<Rightarrow> None
      | ch # rest \<Rightarrow> msg_content (chunk_delta ch))"

definition openai_stream_merge_chunks ::
  "'s openai_env \<Rightarrow> chat_completion option \<Rightarrow> chat_completion_chunk \<Rightarrow>
     py_exception + chat_completion" where
  "openai_stream_merge_chunks env completion chunk =
     (let chunkd = chunk_model_dump chunk
      in case completion of
           None \<Rightarrow> Inr chunkd
         | Some acc \<Rightarrow> merge_dicts env acc chunkd)"

text \<open>
  \<open>OpenAIProvider.stream_turn\<close>: the \<open>delta\<close> of the first choice is popped and stored
  as its \<open>message\<close>; \<open>ChatCompletion.construct\<close> reads the dict as an object.
\<close>

definition openai_stream_turn ::
  "'s openai_env \<Rightarrow> chat_completion option \<Rightarrow> bool \<Rightarrow> py_exception + turn" where
  "openai_stream_turn env completion has_data_model =
     (case completion of
        None \<Rightarrow> Inl (TypeError ''NoneType object is not subscriptable'')
      | Some d \<Rightarrow>
          (case choices d of
             [] \<Rightarrow> Inl (IndexError ''list index out of range'')
           | ch # rest \<Rightarrow>
               (case delta ch of
                  None \<Rightarrow> Inl (KeyError ''delta'')
                | Some dl \<Rightarrow>
                    as_turn env (d\<lparr>choices := ch\<lparr>delta := None, message := Some dl\<rparr> # rest\<rparr>)
                      has_data_model)))"

definition openai_value_turn ::
  "'s openai_env \<Rightarrow> chat_completion \<Rightarrow> bool \<Rightarrow> py_exception + turn" where
  "openai_value_turn env completion has_data_model = as_turn env completion has_data_model"

definition OpenAIProvider ::
  "'s openai_env \<Rightarrow> ('s, chat_completion, chat_completion_chunk, chat_completion) provider" where
  "OpenAIProvider env =
     \<lparr>chat_perform_value = create_value env,
      chat_perform_stream = create_stream env,
      stream_text = openai_stream_text,
      stream_merge_chunks = openai_stream_merge_chunks env,
      stream_turn = openai_stream_turn env,
      value_turn = openai_value_turn env\<rparr>"

section \<open>Concrete chats, turns and providers\<close>

definition chat0 :: "unit chat" where
  "chat0 = \<lparr>provider_state = (), turns = [], tools = []\<rparr>"

definition user_hi :: turn where
  "user_hi = Turn_str User ''hi''"

definition system_terse :: turn where
  "system_terse = Turn_str System ''be terse''"

text \<open>A tool \<open>add(a, b)\<close> on integers; a call without \<open>a\<close> or \<open>b\<close> raises.\<close>

definition add_call :: "call_args \<Rightarrow> py_exception + pyval" where
  "add_call args =
     (case args of
        Kwargs kvs \<Rightarrow>
          (case (map_of kvs ''a'', map_of kvs ''b'') of
             (Some (PInt x), Some (PInt y)) \<Rightarrow> Inr (PInt (x + y))
           | _ \<Rightarrow> Inl (TypeError ''add() missing required positional arguments''))
      | Positional v \<Rightarrow> Inl (TypeError ''add() missing 1 required positional argument: b''))"

definition add_func :: py_callable where
  "add_func = \<lparr>call = add_call, dunder_name = Some ''add''\<rparr>"

definition add_tool :: tool where
  "add_tool = \<lparr>func = add_func, is_async = False\<rparr>"

text \<open>
  The same function wrapped as \<open>functools.partial(add)\<close>: it is called in the same way
  and has no \<open>__name__\<close>.
\<close>

definition partial_add :: py_callable where
  "partial_add = \<lparr>call = add_call, dunder_name = None\<rparr>"

definition partial_add_tool :: tool where
  "partial_add_tool = \<lparr>func = partial_add, is_async = False\<rparr>"

definition assistant_two_calls :: turn where
  "assistant_two_calls =
     Turn Assistant
       [ContentText ''calling'',
        ContentToolRequest ''x'' ''missing_fn'' (PDict []),
        ContentToolRequest ''y'' ''add'' (PDict [(''a'', PInt 1), (''b'', PInt 2)])]"

definition chat_tools :: "unit chat" where
  "chat_tools = \<lparr>provider_state = (), turns = [user_hi, assistant_two_calls],
                  tools = [(''add'', add_tool)]\<rparr>"

text \<open>An assistant turn that calls \<open>add\<close> without \<open>b\<close>, in a chat where \<open>add\<close> is the partial.\<close>

definition assistant_bad_call :: turn where
  "assistant_bad_call =
     Turn Assistant [ContentToolRequest ''x'' ''add'' (PDict [(''a'', PInt 1)])]"

definition chat_partial :: "unit chat" where
  "chat_partial = \<lparr>provider_state = (), turns = [user_hi, assistant_bad_call],
                    tools = [(''add'', partial_add_tool)]\<rparr>"

text \<open>
  A stub of the OpenAI client and its helpers: every request is answered with the same
  completion, or the same chunks; the provider state counts the requests.
\<close>

definition text_message :: "string \<Rightarrow> chat_message" where
  "text_message s = \<lparr>msg_content = Some s, msg_tool_calls = None\<rparr>"

definition stub_usage :: usage where
  "stub_usage = \<lparr>prompt_tokens = 3, completion_tokens = 2\<rparr>"

definition completion_of :: "chat_message \<Rightarrow> chat_completion" where
  "completion_of m =
     \<lparr>completion_object = ''chat.completion'',
      choices = [\<lparr>message = Some m, delta = None, choice_finish_reason = Some ''stop''\<rparr>],
      usage = Some stub_usage, x_groq = None\<rparr>"

definition text_chunk :: "string \<Rightarrow> chat_completion_chunk" where
  "text_chunk s =
     \<lparr>chunk_choices = [\<lparr>chunk_delta = text_message s, chunk_finish_reason = Some ''stop''\<rparr>],
      chunk_usage = Some stub_usage, chunk_x_groq = None\<rparr>"

definition str_or_empty :: "string option \<Rightarrow> string" where
  "str_or_empty x = (case x of None \<Rightarrow> [] | Some s \<Rightarrow> s)"

definition stub_merge_dicts :: "chat_completion \<Rightarrow> chat_completion \<Rightarrow> py_exception + chat_completion" where
  "stub_merge_dicts a b =
     (case (choices a, choices b) of
        ([x], [y]) \<Rightarrow>
          (case (delta x, delta y) of
             (Some p, Some q) \<Rightarrow>
               Inr (b\<lparr>choices :=
                      [y\<lparr>delta := Some (q\<lparr>msg_content :=
                           Some (str_or_empty (msg_content p) @ str_or_empty (msg_content q))\<rparr>)\<rparr>]\<rparr>)
           | _ \<Rightarrow> Inl (TypeError ''unsupported merge''))
      | _ \<Rightarrow> Inl (TypeError ''unsupported merge''))"

definition stub_loads :: "string \<Rightarrow> string + pyval" where
  "stub_loads s = (if s = ''{}'' then Inr (PDict []) else Inl ''Expecting value'')"

definition stub_dump :: "chat_completion \<Rightarrow> pyval" where
  "stub_dump c =
     PDict [(''object'', PStr (completion_object c)),
            (''choices'', PInt (int (length (choices c))))]"

definition stub_env :: "chat_completion \<Rightarrow> chat_completion_chunk list \<Rightarrow> nat openai_env" where
  "stub_env cmpl chunks =
     \<lparr>create_value = (\<lambda>s ts tls dm. (Inr cmpl, Suc s)),
      create_stream = (\<lambda>s ts tls dm. (Inr (chunks, None), Suc s)),
      json_loads = stub_loads,
      merge_dicts = stub_merge_dicts,
      model_dump = stub_dump\<rparr>"

definition hello_env :: "nat openai_env" where
  "hello_env = stub_env (completion_of (text_message ''Hello'')) [text_chunk ''Hello'']"

definition completion_payload :: pyval where
  "completion_payload = PDict [(''object'', PStr ''chat.completion''), (''choices'', PInt 1)]"


definition hello_turn :: turn where
  "hello_turn =
     \<lparr>role = Assistant, contents = [ContentText ''Hello''], tokens = Some (3, 2),
      finish_reason = Some ''stop'', raw_json = Some completion_payload\<rparr>"

definition chat1 :: "nat chat" where
  "chat1 = \<lparr>provider_state = 0, turns = [system_terse], tools = [(''add'', add_tool)]\<rparr>"

text \<open>
  A stub provider that asks for the tool \<open>add\<close> on its first \<open>N\<close> requests: its state is
  the number of requests answered, a completion is the number of its request, and a
  chunk carries that number with a piece of text.
\<close>

definition tool_stub_turn :: "nat \<Rightarrow> nat \<Rightarrow> turn" where
  "tool_stub_turn N k =
     Turn Assistant
       (if k < N then [ContentToolRequest ''call'' ''add'' (PDict [(''a'', PInt 1), (''b'', PInt 2)])]
        else [ContentText ''done''])"

definition tool_stub_provider :: "nat \<Rightarrow> (nat, nat, nat \<times> string, nat) provider" where
  "tool_stub_provider N =
     \<lparr>chat_perform_value = (\<lambda>s ts tls dm. (Inr s, Suc s)),
      chat_perform_stream = (\<lambda>s ts tls dm. (Inr ([(s, ''do''), (s, ''ne'')], None), Suc s)),
      stream_text = (\<lambda>chunk. Some (snd chunk)),
      stream_merge_chunks = (\<lambda>acc chunk. Inr (fst chunk)),
      stream_turn = (\<lambda>acc h. case acc of
                                None \<Rightarrow> Inl (TypeError ''empty stream'')
                              | Some k \<Rightarrow> Inr (tool_stub_turn N k)),
      value_turn = (\<lambda>k h. Inr (tool_stub_turn N k))\<rparr>"

definition add_result_turn :: turn where
  "add_result_turn = Turn User [ContentToolResult ''call'' (PInt 3) None]"

definition stub_final_chat :: "nat chat" where
  "stub_final_chat =
     chat1\<lparr>provider_state := 3,
           turns := [system_terse, user_hi, tool_stub_turn 2 0, add_result_turn,
                     tool_stub_turn 2 1, add_result_turn, tool_stub_turn 2 2]\<rparr>"

text \<open>
  The same stub for a chat in which \<open>add\<close> is a tool function without \<open>__name__\<close> that
  raises on every call.
\<close>

definition boom_func :: py_callable where
  "boom_func = \<lparr>call = (\<lambda>args. Inl (ValueError ''boom'')), dunder_name = None\<rparr>"

definition chat_boom :: "nat chat" where
  "chat_boom = \<lparr>provider_state = 0, turns = [system_terse],
                 tools = [(''add'', \<lparr>func = boom_func, is_async = False\<rparr>)]\<rparr>"

text \<open>
  Providers whose request fails: \<open>failing_provider\<close> without streaming raises in the
  request itself, with streaming its stream raises after two chunks; \<open>flaky_provider\<close>
  asks for the tool \<open>add\<close> on its first request and fails in the same two ways from the
  second request on; \<open>stopping_provider\<close> raises \<open>StopIteration\<close> in both ways.
\<close>

definition auth_error :: py_exception where
  "auth_error = PyExc ''AuthenticationError'' [''APIStatusError'', ''Exception''] ''invalid api key''"

definition connection_error :: py_exception where
  "connection_error = PyExc ''APIConnectionError'' [''APIError'', ''Exception''] ''connection lost''"

definition failing_provider :: "(nat, string, string, string) provider" where
  "failing_provider =
     \<lparr>chat_perform_value = (\<lambda>s ts tls dm. (Inl auth_error, Suc s)),
      chat_perform_stream =
        (\<lambda>s ts tls dm. (Inr ([''par'', ''tial''], Some connection_error), Suc s)),
      stream_text = Some,
      stream_merge_chunks = (\<lambda>acc chunk. Inr (str_or_empty acc @ chunk)),
      stream_turn = (\<lambda>acc h. Inr (Turn_str Assistant (str_or_empty acc))),
      value_turn = (\<lambda>r h. Inr (Turn_str Assistant r))\<rparr>"

definition flaky_provider :: "(nat, nat, nat \<times> string, nat) provider" where
  "flaky_provider =
     \<lparr>chat_perform_value =
        (\<lambda>s ts tls dm. if s = 0 then (Inr s, Suc s) else (Inl auth_error, Suc s)),
      chat_perform_stream =
        (\<lambda>s ts tls dm.
           if s = 0 then (Inr ([(s, ''do''), (s, ''ne'')], None), Suc s)
           else (Inr ([(s, ''par''), (s, ''tial'')], Some connection_error), Suc s)),
      stream_text = (\<lambda>chunk. Some (snd chunk)),
      stream_merge_chunks = (\<lambda>acc chunk. Inr (fst chunk)),
      stream_turn = (\<lambda>acc h. case acc of
                                None \<Rightarrow> Inl (TypeError ''empty stream'')
                              | Some k \<Rightarrow> Inr (tool_stub_turn 1 k)),
      value_turn = (\<lambda>k h. Inr (tool_stub_turn 1 k))\<rparr>"

definition flaky_chat :: "nat chat" where
  "flaky_chat =
     chat1\<lparr>provider_state := 1, turns := [system_terse, user_hi, tool_stub_turn 1 0]\<rparr>"

definition stopping_provider :: "(nat, string, string, string) provider" where
  "stopping_provider =
     failing_provider
       \<lparr>chat_perform_value := (\<lambda>s ts tls dm. (Inl StopIteration, Suc s)),
        chat_perform_stream :=
          (\<lambda>s ts tls dm. (Inr ([''par'', ''tial''], Some StopIteration), Suc s))\<rparr>"

text \<open>A response whose content is JSON, as one chunk, and a response without content.\<close>

definition json_env :: "nat openai_env" where
  "json_env = stub_env (completion_of (text_message ''{}'')) [text_chunk ''{}'']"

definition json_turn :: turn where
  "json_turn =
     \<lparr>role = Assistant, contents = [ContentJson (PDict [])], tokens = Some (3, 2),
      finish_reason = Some ''stop'', raw_json = Some completion_payload\<rparr>"

definition empty_env :: "nat openai_env" where
  "empty_env = stub_env (completion_of \<lparr>msg_content = None, msg_tool_calls = None\<rparr>) []"

definition empty_turn :: turn where
  "empty_turn =
     \<lparr>role = Assistant, contents = [], tokens = Some (3, 2),
      finish_reason = Some ''stop'', raw_json = Some completion_payload\<rparr>"

text \<open>A chat whose system turn carries token counts.\<close>

definition counted_chat :: "unit chat" where
  "counted_chat =
     \<lparr>provider_state = (), turns = [system_terse\<lparr>tokens := Some (1, 2)\<rparr>, user_hi], tools = []\<rparr>"

definition plain_chat :: "unit chat" where
  "plain_chat = \<lparr>provider_state = (), turns = [system_terse, user_hi], tools = []\<rparr>"

section \<open>Replacing the history: validation\<close>

lemma first_system_least:
  "list_ex (\<lambda>x. role x = System) ts \<Longrightarrow>
   \<exists>i. first_system ts k = Some (k + i) \<and> i < length ts \<and> role (ts ! i) = System \<and>
       (\<forall>j<i. role (ts ! j) \<noteq> System)"
proof (induction ts arbitrary: k)
  case Nil
  then show ?case by simp
next
  case (Cons x xs)
  show ?case
  proof (cases "role x = System")
    case True
    then have "first_system (x # xs) k = Some (k + 0) \<and> 0 < length (x # xs) \<and>
        role ((x # xs) ! 0) = System \<and> (\<forall>j<0. role ((x # xs) ! j) \<noteq> System)"
      by simp
    then show ?thesis by blast
  next
    case False
    with Cons.prems have "list_ex (\<lambda>x. role x = System) xs" by simp
    from Cons.IH [OF this, of "Suc k"] obtain i where
      i: "first_system xs (Suc k) = Some (Suc k + i)" "i < length xs"
         "role (xs ! i) = System" "\<forall>j<i. role (xs ! j) \<noteq> System"
      by blast
    have "\<forall>j<Suc i. role ((x # xs) ! j) \<noteq> System"
    proof (intro allI impI)
      fix j assume "j < Suc i"
      then show "role ((x # xs) ! j) \<noteq> System"
        using False i(4) by (cases j) auto
    qed
    with i False have "first_system (x # xs) k = Some (k + Suc i) \<and> Suc i < length (x # xs) \<and>
        role ((x # xs) ! Suc i) = System \<and> (\<forall>j<Suc i. role ((x # xs) ! j) \<noteq> System)"
      by simp
    then show ?thesis by blast
  qed
qed

text \<open>
  C6. \<open>set_turns\<close> raises exactly when the given sequence contains a turn with role
  \<open>system\<close>. The error is a \<open>ValueError\<close> whose message starts with \<open>Turn i\<close> for the
  index \<open>i\<close> of the first such turn, and the chat is returned as it was; otherwise the
  call succeeds and the given sequence becomes the history.
\<close>

theorem set_turns_validation:
  "(if \<exists>t \<in> set ts. role t = System
    then \<exists>i < length ts. role (ts ! i) = System \<and> (\<forall>j<i. role (ts ! j) \<noteq> System) \<and>
           set_turns c ts =
             (Inl (ValueError (''Turn '' @ str_nat i @ set_turns_msg_tail)), c)
    else set_turns c ts = (Inr (), c\<lparr>turns := ts\<rparr>))"
proof (cases "\<exists>t \<in> set ts. role t = System")
  case True
  then have ex: "list_ex (\<lambda>x. role x = System) ts"
    by (simp add: list_ex_iff)
  from first_system_least [OF ex, of 0] obtain i where
    i: "first_system ts 0 = Some i" "i < length ts" "role (ts ! i) = System"
       "\<forall>j<i. role (ts ! j) \<noteq> System"
    by auto
  have "set_turns c ts = (Inl (ValueError (''Turn '' @ str_nat i @ set_turns_msg_tail)), c)"
    using ex i(1) by (simp add: set_turns_def set_turns_msg_def)
  with i(2,3,4) have "\<exists>i < length ts. role (ts ! i) = System \<and>
      (\<forall>j<i. role (ts ! j) \<noteq> System) \<and>
      set_turns c ts = (Inl (ValueError (''Turn '' @ str_nat i @ set_turns_msg_tail)), c)"
    by blast
  with True show ?thesis
    by (simp only: if_True)
next
  case False
  then have "\<not> list_ex (\<lambda>x. role x = System) ts"
    by (simp add: list_ex_iff)
  then have "set_turns c ts = (Inr (), c\<lparr>turns := ts\<rparr>)"
    by (simp add: set_turns_def)
  with False show ?thesis
    by (simp only: if_False)
qed

lemma str_nat_digits:
  "str_nat 0 = ''0''" "str_nat 1 = ''1''" "str_nat 2 = ''2''" "str_nat 3 = ''3''"
  by code_simp+

theorem set_turns_validation_witness:
  "(\<exists>t \<in> set [user_hi, system_terse]. role t = System) \<and>
   set_turns chat0 [user_hi, system_terse] =
     (Inl (ValueError (''Turn 1'' @ set_turns_msg_tail)), chat0)"
proof -
  let ?ts = "[user_hi, system_terse]"
  have ex: "\<exists>t \<in> set ?ts. role t = System"
    by (simp add: system_terse_def Turn_str_def Turn_def)
  from set_turns_validation [of ?ts chat0] ex obtain i where
    i: "i < length ?ts" "role (?ts ! i) = System"
       "set_turns chat0 ?ts = (Inl (ValueError (''Turn '' @ str_nat i @ set_turns_msg_tail)), chat0)"
    by (simp only: if_True) blast
  from i(1) have "i = 0 \<or> i = 1" by auto
  with i(2) have "i = 1" by (auto simp: user_hi_def Turn_str_def Turn_def)
  with i(3) have "set_turns chat0 ?ts =
      (Inl (ValueError (''Turn '' @ ''1'' @ set_turns_msg_tail)), chat0)"
    by (simp only: str_nat_digits)
  with ex show ?thesis by simp
qed

section \<open>One submission round: facts\<close>

lemma generator_raise_not_stop:
  "\<not> isinstance (generator_raise e) ''StopIteration''"
  by (simp add: generator_raise_def isinstance_def)

lemma generator_raise_id:
  "\<not> isinstance e ''StopIteration'' \<Longrightarrow> generator_raise e = e"
  by (simp add: generator_raise_def)

lemma generator_raise_idem:
  "generator_raise (generator_raise e) = generator_raise e"
  by (simp add: generator_raise_id generator_raise_not_stop)

lemma stream_stop_not_stop:
  "stream_stop stop = Some e \<Longrightarrow> \<not> isinstance e ''StopIteration''"
  by (auto simp: stream_stop_def split: option.splits if_splits)

lemma submit_turns_Inr:
  assumes "submit_turns P c U ech stream dm = (Inr u, c', ys)"
  shows "\<exists>A s'. provider_reply P stream (provider_state c) (turns c @ [U]) (tools c) dm = Some (A, s') \<and>
           c' = c\<lparr>provider_state := s', turns := turns c @ [U, A]\<rparr> \<and>
           \<not> list_ex (\<lambda>x. is_async (snd x)) (tools c) \<and>
           (ech = EchoAll \<longrightarrow> role U = User)"
  using assms unfolding submit_turns_def provider_reply_def
  by (auto split: if_splits prod.splits sum.splits option.splits)

lemma submit_turns_reply:
  assumes "\<not> list_ex (\<lambda>x. is_async (snd x)) (tools c)"
    and "ech = EchoAll \<longrightarrow> role U = User"
    and "provider_reply P stream (provider_state c) (turns c @ [U]) (tools c) dm = Some (A, s')"
  shows "\<exists>ys. submit_turns P c U ech stream dm =
           (Inr (), c\<lparr>provider_state := s', turns := turns c @ [U, A]\<rparr>, ys)"
  using assms unfolding submit_turns_def provider_reply_def
  by (auto split: if_splits prod.splits sum.splits option.splits)

lemma submit_turns_Inl:
  assumes "submit_turns P c U ech stream dm = (Inl e, c', ys)"
  shows "turns c' = turns c"
  using assms unfolding submit_turns_def
  by (auto split: if_splits prod.splits sum.splits option.splits)

lemma ValueError_not_stop:
  "\<not> isinstance (ValueError msg) ''StopIteration''"
  by (simp add: isinstance_def)

lemma submit_turns_Inl_not_stop:
  assumes "submit_turns P c U ech stream dm = (Inl e, c', ys)"
  shows "\<not> isinstance e ''StopIteration''"
  using assms unfolding submit_turns_def
  by (auto simp: generator_raise_not_stop ValueError_not_stop
      split: if_splits prod.splits sum.splits option.splits dest: stream_stop_not_stop)

lemma submit_turns_tools:
  "submit_turns P c U ech stream dm = (r, c', ys) \<Longrightarrow> tools c' = tools c"
  unfolding submit_turns_def
  by (auto split: if_splits prod.splits sum.splits option.splits)

lemma as_turn_role:
  "as_turn env completion h = Inr A \<Longrightarrow> role A = Assistant"
  unfolding as_turn_def
  by (auto simp: Let_def split: list.splits option.splits sum.splits if_splits)

lemma openai_reply_role:
  "provider_reply (OpenAIProvider env) stream s ts tls dm = Some (A, s') \<Longrightarrow> role A = Assistant"
  unfolding provider_reply_def OpenAIProvider_def
  by (auto simp: openai_value_turn_def openai_stream_turn_def
      split: if_splits prod.splits sum.splits option.splits list.splits dest: as_turn_role)

lemma get_last_turn_appended:
  "role A = r \<Longrightarrow> get_last_turn (c\<lparr>provider_state := s', turns := ts @ [U, A]\<rparr>) r = Some A"
  by (simp add: get_last_turn_def)

section \<open>Tool invocation: errors are results\<close>

lemma invoke_tool_unknown:
  "invoke_tool None a i = Inr (ContentToolResult i PNone (Some ''Unknown tool''))"
  by (simp add: invoke_tool_def)

lemma invoke_tool_returns:
  "call_func fn a = Inr v \<Longrightarrow> invoke_tool (Some fn) a i = Inr (ContentToolResult i v None)"
  by (simp add: invoke_tool_def)

lemma invoke_tool_named:
  "call_func fn a = Inl e \<Longrightarrow> dunder_name fn = Some n \<Longrightarrow>
   invoke_tool (Some fn) a i = Inr (ContentToolResult i PNone (Some (exc_str e)))"
  by (simp add: invoke_tool_def)

lemma invoke_tool_nameless:
  "call_func fn a = Inl e \<Longrightarrow> dunder_name fn = None \<Longrightarrow>
   invoke_tool (Some fn) a i = Inl (AttributeError ''__name__'')"
  by (simp add: invoke_tool_def)

lemma invoke_tool_Inr:
  "invoke_tool (map_option func (map_of tls n)) a i = Inr r \<Longrightarrow>
   r = answer_request tls (ContentToolRequest i n a)"
  by (auto simp: invoke_tool_def split: option.splits sum.splits)

lemma tools_named_lookup:
  assumes "tools_named tls" and "map_of tls n = Some t"
  shows "dunder_name (func t) \<noteq> None"
proof -
  from assms(2) have "(n, t) \<in> set tls" by (rule map_of_SomeD)
  with assms(1) have "dunder_name (func (snd (n, t))) \<noteq> None"
    unfolding tools_named_def list_all_iff by blast
  then show ?thesis by simp
qed

lemma invoke_tool_tools_named:
  "tools_named tls \<Longrightarrow>
   invoke_tool (map_option func (map_of tls n)) a i = Inr (answer_request tls (ContentToolRequest i n a))"
  by (auto simp: invoke_tool_def split: option.splits sum.splits dest: tools_named_lookup)

text \<open>
  C3. \<open>_invoke_tool\<close> does not capture every exception of a tool function. The tool
  function \<open>functools.partial(add)\<close> has no \<open>__name__\<close>; called without \<open>b\<close> it raises a
  \<open>TypeError\<close>, the \<open>except\<close> branch evaluates \<open>func.__name__\<close> for the log and raises
  \<open>AttributeError\<close> in its turn, so \<open>_invoke_tool\<close> raises where the specification promises
  a tool result with id \<open>x\<close>, value \<open>None\<close> and the text of the \<open>TypeError\<close> as its error; that is
  the result of the same call when the function is \<open>add\<close> itself.
\<close>

theorem invoke_tool_nameless_raises:
  "call_func partial_add (PDict [(''a'', PInt 1)]) =
     Inl (TypeError ''add() missing required positional arguments'') \<and>
   invoke_tool (Some partial_add) (PDict [(''a'', PInt 1)]) ''x'' =
     Inl (AttributeError ''__name__'') \<and>
   invoke_tool (Some add_func) (PDict [(''a'', PInt 1)]) ''x'' =
     Inr (ContentToolResult ''x'' PNone (Some ''add() missing required positional arguments''))"
  by (simp add: invoke_tool_def call_func_def partial_add_def add_func_def add_call_def)

section \<open>One tool round\<close>

lemma tool_results_Inr:
  "tool_results tls xs = Inr rs \<Longrightarrow> rs = map (answer_request tls) (filter is_tool_request xs)"
proof (induction tls xs arbitrary: rs rule: tool_results.induct)
  case (2 tls i n a xs)
  from "2.prems" obtain r rs' where
    r: "invoke_tool (map_option func (map_of tls n)) a i = Inr r"
    and rs': "tool_results tls xs = Inr rs'" and rs: "rs = r # rs'"
    by (auto split: sum.splits)
  from "2.IH" [OF r rs'] invoke_tool_Inr [OF r] rs show ?case by simp
qed simp_all

lemma tool_results_named:
  "tools_named tls \<Longrightarrow>
   tool_results tls xs = Inr (map (answer_request tls) (filter is_tool_request xs))"
  by (induction tls xs rule: tool_results.induct) (simp_all add: invoke_tool_tools_named)

lemma answer_request_result:
  "is_tool_request x \<Longrightarrow>
   \<exists>i n a v e. x = ContentToolRequest i n a \<and> answer_request tls x = ContentToolResult i v e"
  by (cases x) (auto split: option.splits sum.splits)

lemma invoke_tools_returned:
  assumes "get_last_turn c Assistant = Some t" and "invoke_tools c = Inr r"
  shows "r = (if tool_requests_of t = [] then None
              else Some (Turn User (map (answer_request (tools c)) (tool_requests_of t))))"
  using assms
  by (auto simp: invoke_tools_def tool_requests_of_def split: sum.splits if_splits
      dest: tool_results_Inr)

lemma invoke_tools_named:
  assumes "get_last_turn c Assistant = Some t" and "tools_named (tools c)"
  shows "invoke_tools c =
           Inr (if tool_requests_of t = [] then None
                else Some (Turn User (map (answer_request (tools c)) (tool_requests_of t))))"
  using assms by (simp add: invoke_tools_def tool_results_named tool_requests_of_def)

lemma tool_results_no_requests:
  "filter is_tool_request xs = [] \<Longrightarrow> tool_results tls xs = Inr []"
  by (induction tls xs rule: tool_results.induct) auto

lemma invoke_tools_no_requests:
  assumes "get_last_turn c Assistant = Some t" and "tool_requests_of t = []"
  shows "invoke_tools c = Inr None"
  using assms by (simp add: invoke_tools_def tool_requests_of_def tool_results_no_requests)

text \<open>
  An assistant turn with a text and two requests, one for a name that is not registered
  and one for \<open>add\<close>: the results come in the order of the requests.
\<close>

lemma invoke_tools_two_calls:
  "invoke_tools chat_tools =
     Inr (Some (Turn User [ContentToolResult ''x'' PNone (Some ''Unknown tool''),
                           ContentToolResult ''y'' (PInt 3) None]))"
  by (simp add: invoke_tools_def get_last_turn_def chat_tools_def assistant_two_calls_def
      user_hi_def Turn_def Turn_str_def invoke_tool_def call_func_def add_tool_def
      add_func_def add_call_def)

text \<open>
  C4. \<open>_invoke_tools\<close> does not produce a result for every tool request. In a chat where
  \<open>add\<close> is registered as \<open>functools.partial(add)\<close> and the last assistant turn requests
  \<open>add\<close> without \<open>b\<close>, \<open>_invoke_tools\<close> raises the \<open>AttributeError\<close> of \<open>_invoke_tool\<close>
  instead of returning a user turn with one tool result; with \<open>add\<close> itself registered it
  returns that turn.
\<close>

theorem invoke_tools_nameless_raises:
  "get_last_turn chat_partial Assistant = Some assistant_bad_call \<and>
   tool_requests_of assistant_bad_call = [ContentToolRequest ''x'' ''add'' (PDict [(''a'', PInt 1)])] \<and>
   invoke_tools chat_partial = Inl (AttributeError ''__name__'') \<and>
   invoke_tools (chat_partial\<lparr>tools := [(''add'', add_tool)]\<rparr>) =
     Inr (Some (Turn User [ContentToolResult ''x'' PNone
                             (Some ''add() missing required positional arguments'')]))"
  by (simp add: invoke_tools_def get_last_turn_def chat_partial_def assistant_bad_call_def
      user_hi_def Turn_def Turn_str_def tool_requests_of_def invoke_tool_def call_func_def
      partial_add_tool_def partial_add_def add_tool_def add_func_def add_call_def)

section \<open>One submission round: the appended pair\<close>

lemma invoke_tools_appended:
  assumes "role A = Assistant" and "tool_requests_of A = []"
  shows "invoke_tools (c\<lparr>provider_state := s', turns := ts @ [U, A]\<rparr>) = Inr None"
proof -
  let ?c = "c\<lparr>provider_state := s', turns := ts @ [U, A]\<rparr>"
  have "get_last_turn ?c Assistant = Some A"
    using assms(1) by (rule get_last_turn_appended)
  from invoke_tools_no_requests [OF this assms(2)] show ?thesis .
qed

lemma submit_round_pair_aux:
  assumes "submit_turns (OpenAIProvider env) c U ech stream dm = (Inr u, c', ys)"
  shows "\<exists>A. turns c' = turns c @ [U, A] \<and> role A = Assistant"
proof -
  from submit_turns_Inr [OF assms] obtain A s' where
    reply: "provider_reply (OpenAIProvider env) stream (provider_state c) (turns c @ [U])
              (tools c) dm = Some (A, s')"
    and c': "c' = c\<lparr>provider_state := s', turns := turns c @ [U, A]\<rparr>"
    by blast
  from reply have "role A = Assistant"
    by (rule openai_reply_role)
  with c' show ?thesis by simp
qed

text \<open>
  C1. When one round of \<open>_submit_turns\<close> with the OpenAI provider completes, the history
  is the previous history followed by the user turn and the turn \<open>A\<close> that the provider
  made of its response, in this order and nothing else, and \<open>A\<close> has role \<open>assistant\<close>.
  When \<open>A\<close> holds no tool request, the submission loop ends after this round, with this
  history.
\<close>

theorem submit_round_appends_pair:
  assumes "submit_turns (OpenAIProvider env) c U ech stream dm = (Inr u, c', ys)"
  shows "\<exists>A. provider_reply (OpenAIProvider env) stream (provider_state c) (turns c @ [U])
                (tools c) dm = Some (A, provider_state c') \<and>
             turns c' = turns c @ [U, A] \<and>
             role A = Assistant \<and>
             (tool_requests_of A = [] \<and> dm = None \<longrightarrow>
                (\<forall>n. chat_impl (Suc n) (OpenAIProvider env) c U ech stream =
                       Some (Inr (), c', ys)))"
proof -
  from submit_turns_Inr [OF assms] obtain A s' where
    reply: "provider_reply (OpenAIProvider env) stream (provider_state c) (turns c @ [U])
              (tools c) dm = Some (A, s')"
    and c': "c' = c\<lparr>provider_state := s', turns := turns c @ [U, A]\<rparr>"
    by blast
  from reply have role: "role A = Assistant"
    by (rule openai_reply_role)
  have loop: "chat_impl (Suc n) (OpenAIProvider env) c U ech stream = Some (Inr (), c', ys)"
    if "tool_requests_of A = []" "dm = None" for n
  proof -
    have "invoke_tools c' = Inr None"
      unfolding c' using role that(1) by (rule invoke_tools_appended)
    with assms that(2) show ?thesis by simp
  qed
  from reply c' role loop show ?thesis by auto
qed

lemma hello_submit:
  "submit_turns (OpenAIProvider hello_env) chat1 user_hi EchoAll False None =
     (Inr (), chat1\<lparr>provider_state := 1, turns := [system_terse, user_hi, hello_turn]\<rparr>, [''Hello''])"
  by (simp add: submit_turns_def OpenAIProvider_def hello_env_def stub_env_def chat1_def add_tool_def
      user_hi_def Turn_str_def Turn_def openai_value_turn_def as_turn_def completion_of_def
      text_message_def stub_usage_def stub_dump_def hello_turn_def turn_text_def
      completion_payload_def)

theorem submit_round_appends_pair_witness:
  "submit_turns (OpenAIProvider hello_env) chat1 user_hi EchoAll False None =
     (Inr (), chat1\<lparr>provider_state := 1, turns := [system_terse, user_hi, hello_turn]\<rparr>, [''Hello'']) \<and>
   turns (chat1\<lparr>provider_state := 1, turns := [system_terse, user_hi, hello_turn]\<rparr>) =
     turns chat1 @ [user_hi, hello_turn] \<and>
   role hello_turn = Assistant \<and>
   chat_impl 1 (OpenAIProvider hello_env) chat1 user_hi EchoAll False =
     Some (Inr (), chat1\<lparr>provider_state := 1, turns := [system_terse, user_hi, hello_turn]\<rparr>, [''Hello''])"
proof -
  let ?c' = "chat1\<lparr>provider_state := 1, turns := [system_terse, user_hi, hello_turn]\<rparr>"
  from submit_round_appends_pair [OF hello_submit] obtain A where
    A: "turns ?c' = turns chat1 @ [user_hi, A]" "role A = Assistant"
       "tool_requests_of A = [] \<and> (None :: pyval option) = None \<longrightarrow>
          (\<forall>n. chat_impl (Suc n) (OpenAIProvider hello_env) chat1 user_hi EchoAll False =
                 Some (Inr (), ?c', [''Hello'']))"
    by blast
  from A(1) have eq: "A = hello_turn" by (simp add: chat1_def)
  have "tool_requests_of hello_turn = []"
    by (simp add: tool_requests_of_def hello_turn_def)
  with A(3) eq have "chat_impl (Suc 0) (OpenAIProvider hello_env) chat1 user_hi EchoAll False =
                 Some (Inr (), ?c', [''Hello''])" by blast
  with A(1,2) eq hello_submit show ?thesis by simp
qed

section \<open>The system turn stays first\<close>

lemma system_only_first_iff:
  "system_only_first ts \<longleftrightarrow> (\<forall>x \<in> set (tl ts). role x \<noteq> System)"
proof (cases ts)
  case Nil
  then show ?thesis by (simp add: system_only_first_def)
next
  case (Cons t r)
  have "(\<forall>i<length (t # r). role ((t # r) ! i) = System \<longrightarrow> i = 0) \<longleftrightarrow>
        (\<forall>j<length r. role (r ! j) \<noteq> System)"
  proof
    assume h: "\<forall>i<length (t # r). role ((t # r) ! i) = System \<longrightarrow> i = 0"
    show "\<forall>j<length r. role (r ! j) \<noteq> System"
    proof (intro allI impI)
      fix j assume "j < length r"
      with h [rule_format, of "Suc j"] show "role (r ! j) \<noteq> System" by auto
    qed
  next
    assume h: "\<forall>j<length r. role (r ! j) \<noteq> System"
    show "\<forall>i<length (t # r). role ((t # r) ! i) = System \<longrightarrow> i = 0"
    proof (intro allI impI)
      fix i assume "i < length (t # r)" "role ((t # r) ! i) = System"
      with h show "i = 0" by (cases i) auto
    qed
  qed
  also have "\<dots> \<longleftrightarrow> (\<forall>x \<in> set r. role x \<noteq> System)"
    by (metis in_set_conv_nth)
  finally show ?thesis using Cons by (simp add: system_only_first_def)
qed

lemma set_turns_keeps_invariant:
  "system_only_first (turns c) \<Longrightarrow> system_only_first (turns (snd (set_turns c ts)))"
proof (cases "list_ex (\<lambda>x. role x = System) ts")
  case True
  assume "system_only_first (turns c)"
  with True show ?thesis
    by (simp add: set_turns_def split: option.splits)
next
  case False
  then have "\<forall>x \<in> set ts. role x \<noteq> System" by (simp add: list_ex_iff)
  then have "\<forall>x \<in> set (tl ts). role x \<noteq> System"
    by (cases ts) auto
  with False show ?thesis
    by (simp add: set_turns_def system_only_first_iff)
qed

lemma in_set_tl: "x \<in> set (tl xs) \<Longrightarrow> x \<in> set xs"
  by (cases xs) auto

lemma set_system_prompt_keeps_invariant:
  "system_only_first (turns c) \<Longrightarrow> system_only_first (turns (set_system_prompt c v))"
  by (cases "turns c"; cases v)
     (auto simp: set_system_prompt_def system_only_first_iff Let_def dest: in_set_tl)

lemma append_pair_keeps_invariant:
  assumes "system_only_first ts" "role U = User" "role A = Assistant"
  shows "system_only_first (ts @ [U, A])"
  using assms by (cases ts) (auto simp: system_only_first_iff)

lemma submit_turns_keeps_invariant:
  assumes inv: "system_only_first (turns c)" and U: "role U = User"
  shows "system_only_first (turns (fst (snd (submit_turns (OpenAIProvider env) c U ech stream dm))))"
proof (cases "submit_turns (OpenAIProvider env) c U ech stream dm")
  case (fields r c' ys)
  show ?thesis
  proof (cases r)
    case (Inl e)
    with fields have "turns c' = turns c" by (auto dest: submit_turns_Inl)
    with inv fields show ?thesis by simp
  next
    case (Inr u)
    with fields submit_round_pair_aux [of env c U ech stream dm u c' ys] obtain A where
      "turns c' = turns c @ [U, A]" "role A = Assistant" by blast
    with inv U fields show ?thesis by (simp add: append_pair_keeps_invariant)
  qed
qed

text \<open>
  C2. A history in which a system turn can only be the first turn stays so under every
  operation that changes it: \<open>set_turns\<close> (whether it succeeds or raises), the setter of
  \<open>system_prompt\<close>, and a submission round with the OpenAI provider for a turn of role
  \<open>user\<close> (whether it appends the user and assistant turns or raises).
\<close>

theorem system_only_first_preserved:
  "system_only_first (turns c) \<Longrightarrow>
     system_only_first (turns (snd (set_turns c ts))) \<and>
     system_only_first (turns (set_system_prompt c v)) \<and>
     (role U = User \<longrightarrow>
        system_only_first
          (turns (fst (snd (submit_turns (OpenAIProvider env) c U ech stream dm)))))"
  by (simp add: set_turns_keeps_invariant set_system_prompt_keeps_invariant
      submit_turns_keeps_invariant)

theorem system_only_first_preserved_witness:
  "system_only_first (turns chat1) \<and>
   system_only_first (turns (snd (set_turns chat1 [user_hi]))) \<and>
   system_only_first (turns (set_system_prompt chat1 (Some ''be brief''))) \<and>
   role user_hi = User \<and>
   system_only_first
     (turns (fst (snd (submit_turns (OpenAIProvider hello_env) chat1 user_hi EchoAll False None))))"
proof -
  have inv: "system_only_first (turns chat1)"
    by (simp add: system_only_first_def chat1_def)
  have U: "role user_hi = User"
    by (simp add: user_hi_def Turn_str_def Turn_def)
  from system_only_first_preserved [OF inv, of "[user_hi]" "Some ''be brief''" user_hi hello_env
      EchoAll False None] inv U
  show ?thesis by blast
qed

section \<open>Structured data extraction: one result\<close>

text \<open>
  C10. When the submission of \<open>extract_data\<close> completes and \<open>t\<close> is the last assistant
  turn, \<open>extract_data\<close> returns the value of the JSON content of \<open>t\<close> if \<open>t\<close> holds exactly
  one; if it holds none or several, it raises a \<open>ValueError\<close> whose message gives their
  number.
\<close>

theorem extract_data_count:
  assumes "submit_turns P c U ech stream (Some data_model) = (Inr u, c', ys)"
    and "get_last_turn c' Assistant = Some t"
  shows "extract_data P c U data_model ech stream =
           (case json_values (contents t) of
              [v] \<Rightarrow> (Inr v, c')
            | vs \<Rightarrow> (Inl (ValueError (''Data extraction failed: '' @ str_nat (length vs) @
                                      '' data results received.'')), c'))"
proof (cases "json_values (contents t)")
  case Nil
  with assms show ?thesis
    by (simp add: extract_data_def extract_data_msg_def)
next
  case (Cons v vs)
  note outer = Cons
  show ?thesis
  proof (cases vs)
    case Nil
    with assms outer show ?thesis
      by (simp add: extract_data_def)
  next
    case (Cons w ws)
    with assms outer show ?thesis
      by (simp add: extract_data_def extract_data_msg_def)
  qed
qed

lemma json_submit:
  "submit_turns (OpenAIProvider json_env) chat1 user_hi EchoNone False (Some (PDict [])) =
     (Inr (), chat1\<lparr>provider_state := 1, turns := [system_terse, user_hi, json_turn]\<rparr>, [])"
  by (simp add: submit_turns_def OpenAIProvider_def json_env_def stub_env_def chat1_def add_tool_def
      openai_value_turn_def as_turn_def completion_of_def stub_loads_def
      text_message_def stub_usage_def stub_dump_def json_turn_def turn_text_def
      completion_payload_def)

lemma empty_submit:
  "submit_turns (OpenAIProvider empty_env) chat1 user_hi EchoNone False (Some (PDict [])) =
     (Inr (), chat1\<lparr>provider_state := 1, turns := [system_terse, user_hi, empty_turn]\<rparr>, [])"
  by (simp add: submit_turns_def OpenAIProvider_def empty_env_def stub_env_def chat1_def add_tool_def
      openai_value_turn_def as_turn_def completion_of_def stub_loads_def
      stub_usage_def stub_dump_def empty_turn_def turn_text_def completion_payload_def)

theorem extract_data_count_witness:
  "extract_data (OpenAIProvider json_env) chat1 user_hi (PDict []) EchoNone False =
     (Inr (PDict []), chat1\<lparr>provider_state := 1, turns := [system_terse, user_hi, json_turn]\<rparr>) \<and>
   extract_data (OpenAIProvider empty_env) chat1 user_hi (PDict []) EchoNone False =
     (Inl (ValueError ''Data extraction failed: 0 data results received.''),
      chat1\<lparr>provider_state := 1, turns := [system_terse, user_hi, empty_turn]\<rparr>)"
proof -
  have l1: "get_last_turn (chat1\<lparr>provider_state := 1, turns := [system_terse, user_hi, json_turn]\<rparr>)
              Assistant = Some json_turn"
    by (simp add: get_last_turn_def json_turn_def)
  have l2: "get_last_turn (chat1\<lparr>provider_state := 1, turns := [system_terse, user_hi, empty_turn]\<rparr>)
              Assistant = Some empty_turn"
    by (simp add: get_last_turn_def empty_turn_def)
  have v1: "json_values (contents json_turn) = [PDict []]"
    by (simp add: json_turn_def)
  have v2: "json_values (contents empty_turn) = []"
    by (simp add: empty_turn_def)
  from extract_data_count [OF json_submit l1] v1
  have a: "extract_data (OpenAIProvider json_env) chat1 user_hi (PDict []) EchoNone False =
     (Inr (PDict []), chat1\<lparr>provider_state := 1, turns := [system_terse, user_hi, json_turn]\<rparr>)"
    by simp
  from extract_data_count [OF empty_submit l2] v2
  have b: "extract_data (OpenAIProvider empty_env) chat1 user_hi (PDict []) EchoNone False =
     (Inl (ValueError (''Data extraction failed: '' @ str_nat 0 @ '' data results received.'')),
      chat1\<lparr>provider_state := 1, turns := [system_terse, user_hi, empty_turn]\<rparr>)"
    by simp
  from a b show ?thesis by (simp add: str_nat_digits)
qed

section \<open>The round trip of history and system prompt\<close>

lemma no_system_list_ex:
  "(\<forall>x \<in> set ts. role x \<noteq> System) \<Longrightarrow> \<not> list_ex (\<lambda>x. role x = System) ts"
  by (simp add: list_ex_iff)

text \<open>
  C9, as amended. For a chat whose history has a system turn at most in front, and whose
  system turn, if there is one, is what \<open>Turn("system", text)\<close> builds from its own text,
  the round trip (read the full history and the system prompt, \<open>set_turns\<close> the history
  without the system turn, assign the system prompt again) completes and gives back the
  same chat.
\<close>

theorem history_roundtrip_restores:
  assumes inv: "system_only_first (turns c)"
    and canon: "\<forall>t ts. turns c = t # ts \<and> role t = System \<longrightarrow> t = Turn_str System (turn_text t)"
  shows "history_roundtrip c = (Inr (), c)"
proof (cases "turns c")
  case Nil
  then have "c\<lparr>turns := []\<rparr> = c" by (cases c) simp
  with Nil show ?thesis
    by (simp add: history_roundtrip_def get_turns_def system_prompt_def set_turns_def
        set_system_prompt_def)
next
  case (Cons t ts)
  from inv Cons have rest: "\<forall>x \<in> set ts. role x \<noteq> System"
    by (simp add: system_only_first_iff)
  then have nots: "\<not> list_ex (\<lambda>x. role x = System) ts"
    by (rule no_system_list_ex)
  have unchanged: "c\<lparr>turns := t # ts\<rparr> = c" using Cons by (cases c) simp
  show ?thesis
  proof (cases "role t = System")
    case True
    with canon Cons have t: "Turn_str System (turn_text t) = t" by simp
    have pop: "(case ts of [] \<Rightarrow> [] | x # xs \<Rightarrow> if role x = System then xs else x # xs) = ts"
      using rest by (cases ts) auto
    from True Cons nots t pop unchanged show ?thesis
      by (simp add: history_roundtrip_def get_turns_def system_prompt_def set_turns_def
          set_system_prompt_def)
  next
    case False
    with nots have "\<not> list_ex (\<lambda>x. role x = System) (t # ts)" by simp
    with False Cons unchanged show ?thesis
      by (simp add: history_roundtrip_def get_turns_def system_prompt_def set_turns_def
          set_system_prompt_def)
  qed
qed

theorem history_roundtrip_restores_witness:
  "system_only_first (turns plain_chat) \<and>
   hd (turns plain_chat) = Turn_str System (turn_text (hd (turns plain_chat))) \<and>
   history_roundtrip plain_chat = (Inr (), plain_chat)"
proof -
  have inv: "system_only_first (turns plain_chat)"
    by (simp add: system_only_first_iff plain_chat_def user_hi_def Turn_str_def Turn_def)
  have hd: "hd (turns plain_chat) = Turn_str System (turn_text (hd (turns plain_chat)))"
    by (simp add: plain_chat_def system_terse_def Turn_str_def Turn_def turn_text_def)
  then have canon: "\<forall>t ts. turns plain_chat = t # ts \<and> role t = System \<longrightarrow>
      t = Turn_str System (turn_text t)"
    by auto
  from history_roundtrip_restores [OF inv canon] inv hd show ?thesis by blast
qed

text \<open>
  C9 as stated, for every chat state, fails: of a system turn only the text is
  read and assigned again, so a system turn that carries token counts comes back
  without them.
\<close>

theorem history_roundtrip_counterexample:
  "system_only_first (turns counted_chat) \<and>
   history_roundtrip counted_chat = (Inr (), plain_chat) \<and>
   turns (snd (history_roundtrip counted_chat)) \<noteq> turns counted_chat"
proof -
  have inv: "system_only_first (turns counted_chat)"
    by (simp add: system_only_first_iff counted_chat_def user_hi_def Turn_str_def Turn_def)
  have rt: "history_roundtrip counted_chat = (Inr (), plain_chat)"
    by (simp add: history_roundtrip_def get_turns_def system_prompt_def set_turns_def
        set_system_prompt_def counted_chat_def plain_chat_def system_terse_def user_hi_def
        Turn_str_def Turn_def turn_text_def)
  have ne: "turns plain_chat \<noteq> turns counted_chat"
    by (simp add: counted_chat_def plain_chat_def system_terse_def Turn_str_def Turn_def)
  from inv rt ne show ?thesis by simp
qed

section \<open>A failing provider request\<close>

lemma chat_impl_step:
  "submit_turns P c U ech stream None = (o1, c1, ys1) \<Longrightarrow>
   chat_impl (Suc n) P c U ech stream =
     (case o1 of
        Inl e \<Rightarrow> Some (Inl (generator_raise e), c1, ys1)
      | Inr u \<Rightarrow>
          (case invoke_tools c1 of
             Inl e \<Rightarrow> Some (Inl (generator_raise e), c1, ys1)
           | Inr None \<Rightarrow> Some (Inr (), c1, ys1)
           | Inr (Some U') \<Rightarrow>
               (case chat_impl n P c1 U' ech stream of
                  None \<Rightarrow> None
                | Some (r, c'', ys') \<Rightarrow> Some (r, c'', ys1 @ ys'))))"
  by (simp split: sum.splits)

lemma chat_impl_failed_round:
  assumes "submit_turns P c U ech stream None = (Inl e, c', ys)"
  shows "chat_impl (Suc n) P c U ech stream = Some (Inl e, c', ys)"
proof -
  from assms have "generator_raise e = e"
    by (intro generator_raise_id submit_turns_Inl_not_stop)
  with chat_impl_step [OF assms, of n] show ?thesis by (simp del: chat_impl.simps)
qed

lemma rounds_before_chat_impl:
  "rounds_before k P c U ech stream = Some (ck, Uk, ys0) \<Longrightarrow>
   chat_impl (k + n) P c U ech stream =
     (case chat_impl n P ck Uk ech stream of
        None \<Rightarrow> None
      | Some (r, c', ys) \<Rightarrow> Some (r, c', ys0 @ ys))"
proof (induction k arbitrary: c U ys0)
  case 0
  then show ?case by (auto split: option.splits)
next
  case (Suc k)
  obtain o1 c1 ys1 where sub: "submit_turns P c U ech stream None = (o1, c1, ys1)"
    by (cases "submit_turns P c U ech stream None") auto
  from Suc.prems sub obtain U1 ys' where
    o1: "o1 = Inr ()" and inv: "invoke_tools c1 = Inr (Some U1)"
    and rb: "rounds_before k P c1 U1 ech stream = Some (ck, Uk, ys')"
    and ys0: "ys0 = ys1 @ ys'"
    by (auto split: sum.splits option.splits)
  from Suc.IH [OF rb] have ih: "chat_impl (k + n) P c1 U1 ech stream =
     (case chat_impl n P ck Uk ech stream of
        None \<Rightarrow> None
      | Some (r, c', ys) \<Rightarrow> Some (r, c', ys' @ ys))" .
  have "chat_impl (Suc (k + n)) P c U ech stream =
     (case chat_impl (k + n) P c1 U1 ech stream of
        None \<Rightarrow> None
      | Some (r, c'', ys'') \<Rightarrow> Some (r, c'', ys1 @ ys''))"
    using chat_impl_step [OF sub, of "k + n"] o1 inv by (simp del: chat_impl.simps)
  with ih ys0 show ?case
    by (simp del: chat_impl.simps split: option.splits)
qed

lemma loop_passes_any_round:
  assumes "rounds_before k P c U ech stream = Some (ck, Uk, ys0)"
    and "submit_turns P ck Uk ech stream None = (Inl e, c', ys)"
    and "k < n"
  shows "chat_impl n P c U ech stream = Some (Inl e, c', ys0 @ ys)"
proof -
  from assms(3) have "n = k + Suc (n - Suc k)" by simp
  then obtain m where n: "n = k + Suc m" ..
  from chat_impl_failed_round [OF assms(2), of m]
  have "chat_impl (Suc m) P ck Uk ech stream = Some (Inl e, c', ys)" .
  with rounds_before_chat_impl [OF assms(1), of "Suc m"] n show ?thesis
    by (simp del: chat_impl.simps)
qed

lemma request_failure_round:
  assumes "\<not> list_ex (\<lambda>x. is_async (snd x)) (tools c)"
    and "ech = EchoAll \<longrightarrow> role U = User"
    and "\<not> isinstance e ''StopIteration''"
    and "(\<not> stream \<and> chat_perform_value P (provider_state c) (turns c @ [U]) (tools c) dm = (Inl e, s') \<and>
          ys = []) \<or>
         (stream \<and> chat_perform_stream P (provider_state c) (turns c @ [U]) (tools c) dm = (Inl e, s') \<and>
          ys = []) \<or>
         (stream \<and> (\<exists>chunks acc.
            chat_perform_stream P (provider_state c) (turns c @ [U]) (tools c) dm =
              (Inr (chunks, Some e), s') \<and>
            consume_stream P chunks None [] = (Inr acc, ys)))"
  shows "submit_turns P c U ech stream dm = (Inl e, c\<lparr>provider_state := s'\<rparr>, ys)"
proof -
  from assms(3) have r: "generator_raise e = e" "stream_stop (Some e) = Some e"
    by (simp_all add: generator_raise_def stream_stop_def)
  from assms(4) consider
    (val) "\<not> stream" "ys = []"
      "chat_perform_value P (provider_state c) (turns c @ [U]) (tools c) dm = (Inl e, s')"
  | (req) "stream" "ys = []"
      "chat_perform_stream P (provider_state c) (turns c @ [U]) (tools c) dm = (Inl e, s')"
  | (str) chunks acc where "stream"
      "chat_perform_stream P (provider_state c) (turns c @ [U]) (tools c) dm =
         (Inr (chunks, Some e), s')"
      "consume_stream P chunks None [] = (Inr acc, ys)"
    by blast
  then show ?thesis
  proof cases
    case val
    with assms(1,2) r show ?thesis
      by (cases "ech = EchoAll") (simp_all add: submit_turns_def)
  next
    case req
    with assms(1,2) r show ?thesis
      by (cases "ech = EchoAll") (simp_all add: submit_turns_def)
  next
    case str
    with assms(1,2) r show ?thesis
      by (cases "ech = EchoAll") (simp_all add: submit_turns_def)
  qed
qed

text \<open>
  C7, as amended. Take any round of the submission loop that reaches the provider (no
  asynchronous tool is registered and the echoed turn is a user turn), the first or one
  after any number of tool rounds. When in it \<open>chat_perform\<close> raises \<open>e\<close>, with or without
  streaming, or the stream raises \<open>e\<close> after the chunks it delivered were consumed, and
  \<open>e\<close> is not a \<open>StopIteration\<close>, then \<open>_submit_turns\<close> raises that same \<open>e\<close>, the history is
  what it was before the request of this round, and the loop ends with \<open>e\<close>, this chat
  and the text yielded so far. Whatever \<open>_submit_turns\<close> raises, it leaves the history
  as it was.
\<close>

theorem provider_failure_propagates:
  assumes "\<not> list_ex (\<lambda>x. is_async (snd x)) (tools ck)"
    and "ech = EchoAll \<longrightarrow> role Uk = User"
    and "\<not> isinstance e ''StopIteration''"
    and "(\<not> stream \<and>
          chat_perform_value P (provider_state ck) (turns ck @ [Uk]) (tools ck) dm = (Inl e, s') \<and>
          ys = []) \<or>
         (stream \<and>
          chat_perform_stream P (provider_state ck) (turns ck @ [Uk]) (tools ck) dm = (Inl e, s') \<and>
          ys = []) \<or>
         (stream \<and> (\<exists>chunks acc.
            chat_perform_stream P (provider_state ck) (turns ck @ [Uk]) (tools ck) dm =
              (Inr (chunks, Some e), s') \<and>
            consume_stream P chunks None [] = (Inr acc, ys)))"
  shows "submit_turns P ck Uk ech stream dm = (Inl e, ck\<lparr>provider_state := s'\<rparr>, ys) \<and>
         turns (ck\<lparr>provider_state := s'\<rparr>) = turns ck \<and>
         (\<forall>e' c' ys'. submit_turns P ck Uk ech stream dm = (Inl e', c', ys') \<longrightarrow>
            turns c' = turns ck) \<and>
         (\<forall>k c U ys0 n.
            dm = None \<and> rounds_before k P c U ech stream = Some (ck, Uk, ys0) \<and> k < n \<longrightarrow>
            chat_impl n P c U ech stream = Some (Inl e, ck\<lparr>provider_state := s'\<rparr>, ys0 @ ys))"
proof -
  have sub: "submit_turns P ck Uk ech stream dm = (Inl e, ck\<lparr>provider_state := s'\<rparr>, ys)"
    using assms by (rule request_failure_round)
  have keep: "\<forall>e' c' ys'. submit_turns P ck Uk ech stream dm = (Inl e', c', ys') \<longrightarrow>
            turns c' = turns ck"
    by (blast dest: submit_turns_Inl)
  have loop: "\<forall>k c U ys0 n.
            dm = None \<and> rounds_before k P c U ech stream = Some (ck, Uk, ys0) \<and> k < n \<longrightarrow>
            chat_impl n P c U ech stream = Some (Inl e, ck\<lparr>provider_state := s'\<rparr>, ys0 @ ys)"
  proof (intro allI impI, elim conjE)
    fix k c U ys0 n
    assume "dm = None" "rounds_before k P c U ech stream = Some (ck, Uk, ys0)" "k < n"
    with sub show "chat_impl n P c U ech stream = Some (Inl e, ck\<lparr>provider_state := s'\<rparr>, ys0 @ ys)"
      using loop_passes_any_round [of k P c U ech stream ck Uk ys0 e "ck\<lparr>provider_state := s'\<rparr>" ys n]
      by simp
  qed
  from sub keep loop show ?thesis by simp
qed

lemma flaky_first_round:
  "rounds_before (Suc 0) flaky_provider chat1 user_hi EchoAll True =
     Some (flaky_chat, add_result_turn, [''do'', ''ne''])"
  by (simp add: submit_turns_def flaky_provider_def chat1_def add_tool_def add_func_def
      add_call_def user_hi_def Turn_str_def Turn_def tool_stub_turn_def invoke_tools_def
      get_last_turn_def invoke_tool_def call_func_def flaky_chat_def add_result_turn_def
      system_terse_def stream_stop_def)

theorem provider_failure_propagates_witness:
  "rounds_before (Suc 0) flaky_provider chat1 user_hi EchoAll True =
     Some (flaky_chat, add_result_turn, [''do'', ''ne'']) \<and>
   chat_perform_stream flaky_provider (provider_state flaky_chat)
       (turns flaky_chat @ [add_result_turn]) (tools flaky_chat) None =
     (Inr ([(1, ''par''), (1, ''tial'')], Some connection_error), 2) \<and>
   submit_turns flaky_provider flaky_chat add_result_turn EchoAll True None =
     (Inl connection_error, flaky_chat\<lparr>provider_state := 2\<rparr>, [''par'', ''tial'']) \<and>
   turns (flaky_chat\<lparr>provider_state := 2\<rparr>) = turns flaky_chat \<and>
   chat_impl 2 flaky_provider chat1 user_hi EchoAll True =
     Some (Inl connection_error, flaky_chat\<lparr>provider_state := 2\<rparr>,
           [''do'', ''ne'', ''par'', ''tial''])"
proof -
  have g1: "\<not> list_ex (\<lambda>x. is_async (snd x)) (tools flaky_chat)"
    by (simp add: flaky_chat_def chat1_def add_tool_def)
  have g2: "EchoAll = EchoAll \<longrightarrow> role add_result_turn = User"
    by (simp add: add_result_turn_def Turn_def)
  have g3: "\<not> isinstance connection_error ''StopIteration''"
    by (simp add: isinstance_def connection_error_def)
  have req: "chat_perform_stream flaky_provider (provider_state flaky_chat)
       (turns flaky_chat @ [add_result_turn]) (tools flaky_chat) None =
     (Inr ([(1, ''par''), (1, ''tial'')], Some connection_error), 2)"
    by (simp add: flaky_provider_def flaky_chat_def)
  have con: "consume_stream flaky_provider [(1, ''par''), (1, ''tial'')] None [] =
     (Inr (Some 1), [''par'', ''tial''])"
    by (simp add: flaky_provider_def)
  from req con have fail:
    "(\<not> True \<and>
      chat_perform_value flaky_provider (provider_state flaky_chat)
        (turns flaky_chat @ [add_result_turn]) (tools flaky_chat) None = (Inl connection_error, 2) \<and>
      [''par'', ''tial''] = []) \<or>
     (True \<and>
      chat_perform_stream flaky_provider (provider_state flaky_chat)
        (turns flaky_chat @ [add_result_turn]) (tools flaky_chat) None = (Inl connection_error, 2) \<and>
      [''par'', ''tial''] = []) \<or>
     (True \<and> (\<exists>chunks acc.
        chat_perform_stream flaky_provider (provider_state flaky_chat)
          (turns flaky_chat @ [add_result_turn]) (tools flaky_chat) None =
            (Inr (chunks, Some connection_error), 2) \<and>
        consume_stream flaky_provider chunks None [] = (Inr acc, [''par'', ''tial''])))"
    by blast
  note t = provider_failure_propagates [OF g1 g2 g3 fail]
  from t have sub: "submit_turns flaky_provider flaky_chat add_result_turn EchoAll True None =
     (Inl connection_error, flaky_chat\<lparr>provider_state := 2\<rparr>, [''par'', ''tial''])"
    by blast
  from t have keep: "turns (flaky_chat\<lparr>provider_state := 2\<rparr>) = turns flaky_chat"
    by blast
  from t have "(None :: pyval option) = None \<and>
      rounds_before (Suc 0) flaky_provider chat1 user_hi EchoAll True =
        Some (flaky_chat, add_result_turn, [''do'', ''ne'']) \<and> Suc 0 < 2 \<longrightarrow>
      chat_impl 2 flaky_provider chat1 user_hi EchoAll True =
        Some (Inl connection_error, flaky_chat\<lparr>provider_state := 2\<rparr>,
              [''do'', ''ne''] @ [''par'', ''tial''])"
    by blast
  with flaky_first_round have loop: "chat_impl 2 flaky_provider chat1 user_hi EchoAll True =
     Some (Inl connection_error, flaky_chat\<lparr>provider_state := 2\<rparr>,
           [''do'', ''ne'', ''par'', ''tial''])"
    by simp
  from flaky_first_round req sub keep loop show ?thesis by blast
qed

text \<open>
  C7 as stated, for every exception, fails for \<open>StopIteration\<close>: \<open>_submit_turns\<close> is a
  generator, so a \<open>StopIteration\<close> raised by \<open>chat_perform\<close> reaches the caller as a
  \<open>RuntimeError\<close>, and a \<open>StopIteration\<close> raised by the stream is the end of the stream:
  the round completes and appends the user turn and the turn made of the chunks
  received.
\<close>

theorem provider_failure_counterexample:
  "chat_perform_value stopping_provider (provider_state chat1) (turns chat1 @ [user_hi])
       (tools chat1) None = (Inl StopIteration, 1) \<and>
   submit_turns stopping_provider chat1 user_hi EchoAll False None =
     (Inl (RuntimeError ''generator raised StopIteration''), chat1\<lparr>provider_state := 1\<rparr>, []) \<and>
   RuntimeError ''generator raised StopIteration'' \<noteq> StopIteration \<and>
   chat_perform_stream stopping_provider (provider_state chat1) (turns chat1 @ [user_hi])
       (tools chat1) None = (Inr ([''par'', ''tial''], Some StopIteration), 1) \<and>
   submit_turns stopping_provider chat1 user_hi EchoAll True None =
     (Inr (),
      chat1\<lparr>provider_state := 1,
            turns := [system_terse, user_hi, Turn_str Assistant ''partial'']\<rparr>,
      [''par'', ''tial''])"
  by (simp add: submit_turns_def stopping_provider_def failing_provider_def chat1_def
      add_tool_def user_hi_def Turn_str_def Turn_def generator_raise_def isinstance_def
      stream_stop_def str_or_empty_def)

section \<open>The submission loop ends\<close>

lemma chat_impl_Suc:
  "chat_impl n P c U ech stream = Some r \<Longrightarrow> chat_impl (Suc n) P c U ech stream = Some r"
proof (induction n arbitrary: c U r)
  case 0
  then show ?case by simp
next
  case (Suc n)
  obtain o1 c1 ys1 where fields: "submit_turns P c U ech stream None = (o1, c1, ys1)"
    by (cases "submit_turns P c U ech stream None") auto
  note step0 = chat_impl_step [OF fields, of n] and step1 = chat_impl_step [OF fields, of "Suc n"]
  show ?case
  proof (cases o1)
    case (Inl e)
    with step0 step1 Suc.prems show ?thesis by (simp del: chat_impl.simps)
  next
    case (Inr u)
    show ?thesis
    proof (cases "invoke_tools c1")
      case (Inl e)
      with Inr step0 step1 Suc.prems show ?thesis by (simp del: chat_impl.simps)
    next
      case inv: (Inr t)
      show ?thesis
      proof (cases t)
        case None
        with Inr inv step0 step1 Suc.prems show ?thesis by (simp del: chat_impl.simps)
      next
        case (Some U')
        show ?thesis
        proof (cases "chat_impl n P c1 U' ech stream")
          case None
          with Inr inv Some step0 Suc.prems show ?thesis by (simp del: chat_impl.simps)
        next
          case inner: (Some r')
          from Suc.IH [OF inner] have "chat_impl (Suc n) P c1 U' ech stream = Some r'" .
          with inner Inr inv Some step0 step1 Suc.prems show ?thesis
            by (simp del: chat_impl.simps)
        qed
      qed
    qed
  qed
qed

lemma chat_impl_more_fuel:
  "chat_impl n P c U ech stream = Some r \<Longrightarrow> n \<le> m \<Longrightarrow> chat_impl m P c U ech stream = Some r"
proof (induction m)
  case 0
  then show ?case by simp
next
  case (Suc m)
  show ?case
  proof (cases "n = Suc m")
    case True
    with Suc.prems show ?thesis by simp
  next
    case False
    with Suc.prems have "n \<le> m" by simp
    with Suc have "chat_impl m P c U ech stream = Some r" by simp
    then show ?thesis by (rule chat_impl_Suc)
  qed
qed

lemma Turn_role: "role (Turn r cs) = r"
  by (simp add: Turn_def)

lemma invoke_tools_appended_named:
  assumes "role A = Assistant" and "tools_named (tools c)"
  shows "invoke_tools (c\<lparr>provider_state := s', turns := ts @ [U, A]\<rparr>) =
           Inr (if tool_requests_of A = [] then None
                else Some (Turn User (map (answer_request (tools c)) (tool_requests_of A))))"
proof -
  let ?c = "c\<lparr>provider_state := s', turns := ts @ [U, A]\<rparr>"
  have last: "get_last_turn ?c Assistant = Some A"
    using assms(1) by (rule get_last_turn_appended)
  have "tools_named (tools ?c)" using assms(2) by simp
  from invoke_tools_named [OF last this] show ?thesis by simp
qed

lemma loop_rounds:
  assumes stub: "tool_rounds_stub P stream served N"
  shows "N - served (provider_state c) = d \<Longrightarrow> served (provider_state c) \<le> N \<Longrightarrow>
         \<not> list_ex (\<lambda>x. is_async (snd x)) (tools c) \<Longrightarrow>
         tools_named (tools c) \<Longrightarrow>
         (ech = EchoAll \<longrightarrow> role U = User) \<Longrightarrow>
         \<exists>c' ys. chat_impl (Suc d) P c U ech stream = Some (Inr (), c', ys) \<and>
                 (\<forall>k \<le> d. chat_impl k P c U ech stream = None) \<and>
                 length (turns c') = length (turns c) + 2 * Suc d \<and>
                 served (provider_state c') = Suc N"
proof (induction d arbitrary: c U)
  case 0
  from stub obtain A s' where
    reply: "provider_reply P stream (provider_state c) (turns c @ [U]) (tools c) None = Some (A, s')"
    and served: "served s' = Suc (served (provider_state c))"
    and role: "role A = Assistant"
    and reqs: "tool_requests_of A \<noteq> [] \<longleftrightarrow> served (provider_state c) < N"
    unfolding tool_rounds_stub_def by blast
  let ?c1 = "c\<lparr>provider_state := s', turns := turns c @ [U, A]\<rparr>"
  from submit_turns_reply [OF "0.prems"(3) "0.prems"(5) reply] obtain ys where
    sub: "submit_turns P c U ech stream None = (Inr (), ?c1, ys)" by blast
  from "0.prems"(1,2) have full: "served (provider_state c) = N" by simp
  with reqs have "tool_requests_of A = []" by simp
  then have "invoke_tools ?c1 = Inr None"
    using role by (simp add: invoke_tools_appended)
  with chat_impl_step [OF sub, of 0] have "chat_impl (Suc 0) P c U ech stream = Some (Inr (), ?c1, ys)"
    by (simp del: chat_impl.simps)
  moreover have "\<forall>k \<le> 0. chat_impl k P c U ech stream = None" by simp
  moreover have "length (turns ?c1) = length (turns c) + 2 * Suc 0" by simp
  moreover have "served (provider_state ?c1) = Suc N"
    using served full by simp
  ultimately show ?case by blast
next
  case (Suc d)
  from stub obtain A s' where
    reply: "provider_reply P stream (provider_state c) (turns c @ [U]) (tools c) None = Some (A, s')"
    and served: "served s' = Suc (served (provider_state c))"
    and role: "role A = Assistant"
    and reqs: "tool_requests_of A \<noteq> [] \<longleftrightarrow> served (provider_state c) < N"
    unfolding tool_rounds_stub_def by blast
  let ?c1 = "c\<lparr>provider_state := s', turns := turns c @ [U, A]\<rparr>"
  let ?U' = "Turn User (map (answer_request (tools c)) (tool_requests_of A))"
  from submit_turns_reply [OF Suc.prems(3) Suc.prems(5) reply] obtain ys where
    sub: "submit_turns P c U ech stream None = (Inr (), ?c1, ys)" by blast
  from Suc.prems(1) have lt: "served (provider_state c) < N" by simp
  with reqs have "tool_requests_of A \<noteq> []" by simp
  then have inv: "invoke_tools ?c1 = Inr (Some ?U')"
    by (simp add: invoke_tools_appended_named [OF role Suc.prems(4)])
  have p1: "N - served (provider_state ?c1) = d" using Suc.prems(1) served by simp
  have p2: "served (provider_state ?c1) \<le> N" using lt served by simp
  have p3: "\<not> list_ex (\<lambda>x. is_async (snd x)) (tools ?c1)" using Suc.prems(3) by simp
  have p4: "tools_named (tools ?c1)" using Suc.prems(4) by simp
  have p5: "ech = EchoAll \<longrightarrow> role ?U' = User" by (simp add: Turn_role)
  from Suc.IH [OF p1 p2 p3 p4 p5] obtain c' ys' where
    ih: "chat_impl (Suc d) P ?c1 ?U' ech stream = Some (Inr (), c', ys')"
        "\<forall>k \<le> d. chat_impl k P ?c1 ?U' ech stream = None"
        "length (turns c') = length (turns ?c1) + 2 * Suc d"
        "served (provider_state c') = Suc N"
    by blast
  from chat_impl_step [OF sub, of "Suc d"] inv ih(1)
  have a: "chat_impl (Suc (Suc d)) P c U ech stream = Some (Inr (), c', ys @ ys')"
    by (simp del: chat_impl.simps)
  have b: "\<forall>k \<le> Suc d. chat_impl k P c U ech stream = None"
  proof (intro allI impI)
    fix k assume k: "k \<le> Suc d"
    show "chat_impl k P c U ech stream = None"
    proof (cases k)
      case 0
      then show ?thesis by simp
    next
      case (Suc j)
      with k have "j \<le> d" by simp
      with ih(2) have "chat_impl j P ?c1 ?U' ech stream = None" by blast
      with chat_impl_step [OF sub, of j] inv Suc show ?thesis
        by (simp del: chat_impl.simps)
    qed
  qed
  have c: "length (turns c') = length (turns c) + 2 * Suc (Suc d)"
    using ih(3) by simp
  from a b c ih(4) show ?case by blast
qed

text \<open>
  When every registered tool function has a \<open>__name__\<close>, the loop behaves as described:
  with a stub provider that asks for tools on its first \<open>N\<close> requests only, it ends
  without an exception after exactly \<open>N + 1\<close> rounds.
\<close>

lemma tool_loop_named_terminates:
  assumes "tool_rounds_stub P stream served N"
    and "served (provider_state c) = 0"
    and "\<not> list_ex (\<lambda>x. is_async (snd x)) (tools c)"
    and "tools_named (tools c)"
    and "ech = EchoAll \<longrightarrow> role U = User"
  shows "\<exists>c' ys. chat_impl (Suc N) P c U ech stream = Some (Inr (), c', ys) \<and>
                 (\<forall>k \<le> N. chat_impl k P c U ech stream = None) \<and>
                 (\<forall>k > N. chat_impl k P c U ech stream = Some (Inr (), c', ys)) \<and>
                 length (turns c') = length (turns c) + 2 * Suc N \<and>
                 served (provider_state c') = Suc N"
proof -
  have d: "N - served (provider_state c) = N" and le: "served (provider_state c) \<le> N"
    using assms(2) by simp_all
  from loop_rounds [OF assms(1) d le assms(3) assms(4) assms(5)] obtain c' ys where
    r: "chat_impl (Suc N) P c U ech stream = Some (Inr (), c', ys)"
       "\<forall>k \<le> N. chat_impl k P c U ech stream = None"
       "length (turns c') = length (turns c) + 2 * Suc N"
       "served (provider_state c') = Suc N"
    by blast
  have "\<forall>k > N. chat_impl k P c U ech stream = Some (Inr (), c', ys)"
  proof (intro allI impI)
    fix k assume "N < k"
    then have "Suc N \<le> k" by simp
    with r(1) show "chat_impl k P c U ech stream = Some (Inr (), c', ys)"
      by (rule chat_impl_more_fuel)
  qed
  with r show ?thesis by blast
qed

lemma stub_is_tool_rounds_stub:
  "tool_rounds_stub (tool_stub_provider 2) stream (\<lambda>s. s) 2"
  by (auto simp: tool_rounds_stub_def provider_reply_def tool_stub_provider_def
      tool_stub_turn_def Turn_def tool_requests_of_def stream_stop_def)

text \<open>
  C5. The loop does not reach its end after \<open>N + 1\<close> rounds for every stub of this
  kind. With the stub that asks for \<open>add\<close> on its first two requests and a chat in which
  \<open>add\<close> is a function without \<open>__name__\<close> that raises, the first tool round ends the
  loop with the \<open>AttributeError\<close> of \<open>_invoke_tool\<close> after one provider round; the
  specification promises three rounds and a normal end, which is what the same stub gives in a chat
  where \<open>add\<close> is the named function.
\<close>

theorem tool_loop_nameless_raises:
  "chat_impl 3 (tool_stub_provider 2) chat_boom user_hi EchoAll False =
     Some (Inl (AttributeError ''__name__''),
           chat_boom\<lparr>provider_state := 1, turns := [system_terse, user_hi, tool_stub_turn 2 0]\<rparr>,
           []) \<and>
   chat_impl 3 (tool_stub_provider 2) chat1 user_hi EchoAll False =
     Some (Inr (), stub_final_chat, [''done''])"
proof -
  have three: "(3::nat) = Suc (Suc (Suc 0))" by simp
  have a: "chat_impl (Suc (Suc (Suc 0))) (tool_stub_provider 2) chat_boom user_hi EchoAll False =
     Some (Inl (AttributeError ''__name__''),
           chat_boom\<lparr>provider_state := 1, turns := [system_terse, user_hi, tool_stub_turn 2 0]\<rparr>,
           [])"
    by (simp add: submit_turns_def tool_stub_provider_def chat_boom_def user_hi_def
      Turn_str_def Turn_def tool_stub_turn_def invoke_tools_def get_last_turn_def
      invoke_tool_def call_func_def boom_func_def system_terse_def turn_text_def
      generator_raise_def isinstance_def)
  have b: "chat_impl (Suc (Suc (Suc 0))) (tool_stub_provider 2) chat1 user_hi EchoAll False =
     Some (Inr (), stub_final_chat, [''done''])"
    by (simp add: submit_turns_def tool_stub_provider_def chat1_def add_tool_def add_func_def
      add_call_def user_hi_def Turn_str_def Turn_def tool_stub_turn_def invoke_tools_def
      get_last_turn_def invoke_tool_def call_func_def stub_final_chat_def add_result_turn_def
      system_terse_def turn_text_def)
  from a b show ?thesis by (simp only: three)
qed

section \<open>Streamed and non-streamed rounds\<close>











end
